theory Spec2Isabelle
  imports Main "HOL-Library.Word" "HOL-Library.AList"
begin

section \<open>Data model\<close>

text \<open>
  The development follows the C++ sources of PBSM: \<^verbatim>\<open>messages.hpp\<close>,
  \<^verbatim>\<open>communication_handler.hpp/.cpp\<close>, \<^verbatim>\<open>policy.hpp/.cpp\<close>, \<^verbatim>\<open>shared.hpp\<close> and
  \<^verbatim>\<open>pbsm.hpp\<close>. Integer types are those of an LP64 platform: \<^verbatim>\<open>uint32_t\<close> is
  \<open>32 word\<close>, \<^verbatim>\<open>unsigned long\<close> (and \<^verbatim>\<open>std::atomic_ulong\<close>) is \<open>64 word\<close>, and an
  \<^verbatim>\<open>int\<close> that the code only compares and increments inside its range is an \<open>int\<close>;
  its conversion to \<^verbatim>\<open>unsigned long\<close> is \<open>word_of_int\<close>. Members keep their names
  without the final underscore of the source: \<^verbatim>\<open>dictionary_\<close> is \<open>dictionary\<close>.
\<close>

type_synonym byte = "8 word"

subsection \<open>messages.hpp\<close>

text \<open>
  \<^verbatim>\<open>enum class msg_type_t\<close> has nine enumerators. A value read from the network may
  be none of them, which the \<^verbatim>\<open>default:\<close> branch of the dispatcher receives; the last
  constructor stands for every such value.
\<close>

datatype msg_type_t =
    MSG_REQUEST_OWNERSHIP
  | MSG_GRANT_OWNERSHIP
  | MSG_SET_NEW_OWNER
  | MSG_ASK_CURRENT_VALUE
  | MSG_SET_NEW_VALUE
  | MSG_BARRIER_BLOCK
  | MSG_BARRIER_UNBLOCK
  | MSG_INVALIDATE_COPY
  | MSG_INVALIDATE_COPY_ACK
  | MSG_not_an_enumerator

text \<open>
  \<^verbatim>\<open>struct msg_t\<close>: the union \<^verbatim>\<open>data\<close> holds either \<^verbatim>\<open>node\<close> or \<^verbatim>\<open>var_size\<close>, both
  \<^verbatim>\<open>unsigned long\<close>, so one field carries it.
\<close>

record msg_t =
  msg_type :: msg_type_t
  msg_id :: "32 word"
  msg_data :: "64 word"

subsection \<open>Effects\<close>

text \<open>
  The condition variables of \<^verbatim>\<open>policy.hpp\<close>. Those inside a \<^verbatim>\<open>var_data\<close> are named by
  the variable id, the one inside a barrier semaphore by the barrier id.
\<close>

datatype cond_t =
    wait_value_updated "32 word"
  | waiting_ownership_grant "32 word"
  | waiting_invalidate_copies "32 word"
  | wait_condition "32 word"
  | slave_wait_barrier

text \<open>
  Modelled from the spec: \<^verbatim>\<open>logger.hpp\<close> is not among the sources. Its macros
  \<^verbatim>\<open>WARNING\<close> and \<^verbatim>\<open>ERROR\<close> are taken to write one line to the log at that level, as
  the specification's error handling has it ("log at error", "log and drop").
\<close>

datatype level = WARNING | ERROR

text \<open>
  What a piece of code does to the outside: \<open>Send i m\<close> is the call
  \<^verbatim>\<open>send(connections_[i].send_fd, &m, sizeof(m), 0)\<close>, \<open>SendBytes i d\<close> the same call
  on a raw buffer, \<open>Notify c\<close> is \<^verbatim>\<open>c.notify_all()\<close>, and \<open>Log l s\<close> a line written
  by the \<^verbatim>\<open>WARNING\<close> or \<^verbatim>\<open>ERROR\<close> macro (the streamed values are left out of the
  text). \<^verbatim>\<open>DEBUG\<close> tracing is not recorded.
\<close>

datatype event =
    Send nat msg_t
  | SendBytes nat "byte list"
  | Notify cond_t
  | Log level string

fun sends :: "event list \<Rightarrow> (nat \<times> msg_t) list" where
  "sends [] = []"
| "sends (Send i m # es) = (i, m) # sends es"
| "sends (e # es) = sends es"

fun payloads :: "event list \<Rightarrow> (nat \<times> byte list) list" where
  "payloads [] = []"
| "payloads (SendBytes i d # es) = (i, d) # payloads es"
| "payloads (e # es) = payloads es"

fun notifies :: "event list \<Rightarrow> cond_t list" where
  "notifies [] = []"
| "notifies (Notify c # es) = c # notifies es"
| "notifies (e # es) = notifies es"

text \<open>
  Behaviour that C++ leaves undefined is a value of its own, so that no theorem about
  a result silently covers it.
\<close>

datatype error =
    OutOfBounds      \<comment> \<open>\<^verbatim>\<open>connections_[i]\<close> with \<open>i\<close> outside what the array holds\<close>
  | BufferOverrun    \<comment> \<open>\<^verbatim>\<open>set_value\<close> reading past the end of the receive buffer\<close>
  | Relock           \<comment> \<open>\<^verbatim>\<open>std::mutex::lock\<close> by the thread that owns the mutex\<close>
  | DanglingPointer  \<comment> \<open>a \<^verbatim>\<open>var_data*\<close> used after \<^verbatim>\<open>delete\<close>\<close>
  | NullPointer      \<comment> \<open>a null \<^verbatim>\<open>var_data*\<close> dereferenced\<close>

text \<open>
  A method called by the application thread either returns, or parks the thread on a
  condition variable with \<^verbatim>\<open>wait(lock)\<close>. In the second case the rest of the method
  runs when the thread is woken, and is a function of its own (\<open>\<dots>_resume\<close>);
  \<open>Blocks c r\<close> carries the value \<open>r\<close> that the method will return then.
\<close>

datatype 'a outcome = Returns 'a | Blocks cond_t 'a

subsection \<open>communication_handler.hpp\<close>

definition MAX_NUMBER_OF_NODES :: int where
  "MAX_NUMBER_OF_NODES = 100"

definition network_port_offset :: int where
  "network_port_offset = 2000"

record connection =
  ip :: string
  recv_port :: int
  send_port :: int

text \<open>
  The process-wide objects every method reads: the global \<^verbatim>\<open>pbsm_tid\<close> and the
  \<^verbatim>\<open>CommunicationHandler\<close> singleton. \<open>connections\<close> lists the entries of the array
  that the constructor filled, so its length is \<open>number_of_nodes\<close>. \<open>send_ok i\<close>
  tells whether \<^verbatim>\<open>send\<close> on the socket of entry \<open>i\<close> transmits the whole buffer; it
  belongs to the network, not to the program.
\<close>

record CommunicationHandler =
  pbsm_tid :: int
  connections :: "connection list"
  number_of_nodes :: int
  send_ok :: "nat \<Rightarrow> bool"

definition get_number_of_nodes :: "CommunicationHandler \<Rightarrow> int" where
  "get_number_of_nodes C = number_of_nodes C"

text \<open>
  \<^verbatim>\<open>lock_send_channel\<close> and \<^verbatim>\<open>unlock_send_channel\<close> take the node as an \<^verbatim>\<open>int\<close>; apart
  from the mutex they only log when the entry lies beyond \<open>number_of_nodes\<close>.
\<close>

definition lock_send_channel :: "CommunicationHandler \<Rightarrow> int \<Rightarrow> event list" where
  "lock_send_channel C node =
     (if node > number_of_nodes C then [Log ERROR ''Lock channel on wrong entry''] else [])"

definition unlock_send_channel :: "CommunicationHandler \<Rightarrow> int \<Rightarrow> event list" where
  "unlock_send_channel C node =
     (if node > number_of_nodes C then [Log ERROR ''Unlock channel on wrong entry''] else [])"

text \<open>
  \<^verbatim>\<open>send_to_all\<close>: the loop \<^verbatim>\<open>for (int i = 0; i < number_of_nodes_; ++i)\<close> over the
  indices still to visit. The result is the returned flag and the effects in order.
\<close>

fun send_to_all_loop :: "CommunicationHandler \<Rightarrow> msg_t \<Rightarrow> nat list \<Rightarrow> bool \<times> event list" where
  "send_to_all_loop C m [] = (True, [])"
| "send_to_all_loop C m (i # rest) =
     (let (ret, evs) = send_to_all_loop C m rest in
      if int i \<noteq> pbsm_tid C then
        (if send_ok C i
         then (ret, lock_send_channel C (int i) @ [Send i m]
                      @ unlock_send_channel C (int i) @ evs)
         else (False, lock_send_channel C (int i) @ [Send i m, Log ERROR ''ERROR: Sending data to '']
                      @ unlock_send_channel C (int i) @ evs))
      else (ret, evs))"

definition send_to_all :: "CommunicationHandler \<Rightarrow> msg_t \<Rightarrow> bool \<times> event list" where
  "send_to_all C m = send_to_all_loop C m [0 ..< nat (number_of_nodes C)]"

text \<open>
  \<^verbatim>\<open>send_to\<close>: the comparison \<^verbatim>\<open>rem_node_id == pbsm_tid\<close> converts the \<^verbatim>\<open>int\<close> to
  \<^verbatim>\<open>unsigned long\<close>. \<^verbatim>\<open>connections_\<close> is a \<^verbatim>\<open>std::array\<close> of \<open>MAX_NUMBER_OF_NODES\<close>
  entries, indexed without a check.
\<close>

definition send_to :: "CommunicationHandler \<Rightarrow> msg_t \<Rightarrow> 64 word \<Rightarrow> error + bool \<times> event list" where
  "send_to C m rem_node_id =
     (if rem_node_id = word_of_int (pbsm_tid C)
      then Inr (False, [Log ERROR ''Trying to send data to myself''])
      else if uint rem_node_id < MAX_NUMBER_OF_NODES then
        (if send_ok C (unat rem_node_id)
         then Inr (True, lock_send_channel C (uint rem_node_id) @ [Send (unat rem_node_id) m]
                      @ unlock_send_channel C (uint rem_node_id))
         else Inr (False, lock_send_channel C (uint rem_node_id)
                      @ [Send (unat rem_node_id) m, Log ERROR ''ERROR: Sending data to '']
                      @ unlock_send_channel C (uint rem_node_id)))
      else Inl OutOfBounds)"

definition send_two_messages_to ::
  "CommunicationHandler \<Rightarrow> msg_t \<Rightarrow> byte list \<Rightarrow> 64 word \<Rightarrow> error + bool \<times> event list" where
  "send_two_messages_to C m d rem_node_id =
     (if rem_node_id = word_of_int (pbsm_tid C)
      then Inr (False, [Log ERROR ''Trying to send data to myself''])
      else if uint rem_node_id < MAX_NUMBER_OF_NODES then
        (if send_ok C (unat rem_node_id)
         then Inr (True, lock_send_channel C (uint rem_node_id)
                      @ [Send (unat rem_node_id) m, SendBytes (unat rem_node_id) d]
                      @ unlock_send_channel C (uint rem_node_id))
         else Inr (False, lock_send_channel C (uint rem_node_id)
                      @ [Send (unat rem_node_id) m, Log ERROR ''ERROR: Sending msg1 data to '',
                         SendBytes (unat rem_node_id) d, Log ERROR ''ERROR: Sending msg2 data to '']
                      @ unlock_send_channel C (uint rem_node_id)))
      else Inl OutOfBounds)"

subsection \<open>abstract_shared.hpp, shared.hpp\<close>

text \<open>
  A \<^verbatim>\<open>shared<T>\<close> object as the policy sees it through \<^verbatim>\<open>AbstractShared\<close>: its id and
  the object representation of the \<^verbatim>\<open>T\<close> it holds, \<^verbatim>\<open>sizeof(T)\<close> bytes.
\<close>

record AbstractShared =
  ident :: "32 word"
  data :: "byte list"

definition get_id :: "AbstractShared \<Rightarrow> 32 word" where
  "get_id a = ident a"

definition get_size :: "AbstractShared \<Rightarrow> nat" where
  "get_size a = length (data a)"

definition get_value :: "AbstractShared \<Rightarrow> byte list" where
  "get_value a = data a"

text \<open>
  \<^verbatim>\<open>set_value(buffer)\<close> assigns \<^verbatim>\<open>*((T*) buffer)\<close>: it reads \<^verbatim>\<open>sizeof(T)\<close> bytes from a
  buffer whose length the caller chose.
\<close>

definition set_value :: "AbstractShared \<Rightarrow> byte list \<Rightarrow> AbstractShared option" where
  "set_value a buffer =
     (if get_size a \<le> length buffer then Some (a\<lparr>data := take (get_size a) buffer\<rparr>) else None)"

subsection \<open>policy.hpp\<close>

datatype state =
    OWNER_NO_SHARED
  | OWNER_SHARED
  | REMOTE_OWNER_CACHED
  | REMOTE_OWNER_NO_CACHED

text \<open>
  \<^verbatim>\<open>struct var_data\<close>, with \<open>counter\<close> the counter of the semaphore
  \<^verbatim>\<open>waiting_invalidate_copies_\<close>. The mutex and the condition variables have no
  contents of their own.
\<close>

record var_data =
  variable :: AbstractShared
  state :: state
  remote_owner :: "64 word"
  counter :: "64 word"

text \<open>
  A \<^verbatim>\<open>std::map<uint32_t, X*>\<close> is a list of keys with a pointer each, \<open>None\<close> being
  \<^verbatim>\<open>nullptr\<close>. Reading \<^verbatim>\<open>m[k]\<close> inserts a null pointer when the key is new. Writing
  through a pointer held by the map, and assigning to \<^verbatim>\<open>m[k]\<close>, are both
  \<open>AList.update\<close>. The order of the keys plays no role in the code.
\<close>

type_synonym 'a cppmap = "(32 word \<times> 'a option) list"

definition subscript :: "'a cppmap \<Rightarrow> 32 word \<Rightarrow> 'a option \<times> 'a cppmap" where
  "subscript m k = (case map_of m k of None \<Rightarrow> (None, m @ [(k, None)]) | Some p \<Rightarrow> (p, m))"

text \<open>The objects a map reaches: what the specification calls the registry.\<close>

definition registry :: "'a cppmap \<Rightarrow> 32 word \<Rightarrow> 'a option" where
  "registry m k = (case map_of m k of None \<Rightarrow> None | Some p \<Rightarrow> p)"

text \<open>
  The \<^verbatim>\<open>Policy\<close> singleton: \<open>dictionary\<close>, and the barrier table of the master, whose
  semaphores are reduced to their counters.
\<close>

record Policy =
  dictionary :: "var_data cppmap"
  master_waiting_barrier_grants :: "(64 word) cppmap"

definition requestCurrentValue :: "CommunicationHandler \<Rightarrow> var_data \<Rightarrow> error + bool \<times> event list" where
  "requestCurrentValue C v =
     (let owner = remote_owner v;
          msg = \<lparr>msg_type = MSG_ASK_CURRENT_VALUE, msg_id = get_id (variable v),
                 msg_data = word_of_int (pbsm_tid C)\<rparr>
      in case send_to C msg owner of
           Inl e \<Rightarrow> Inl e
         | Inr (ok, evs) \<Rightarrow>
             if ok then Inr (True, evs)
             else Inr (False, evs @ [Log ERROR ''ERROR in sending MSG_ASK_CURRENT_VALUE'']))"

definition send_request_ownership :: "CommunicationHandler \<Rightarrow> var_data \<Rightarrow> bool \<times> event list" where
  "send_request_ownership C var =
     (let msg = \<lparr>msg_type = MSG_REQUEST_OWNERSHIP, msg_id = get_id (variable var),
                 msg_data = word_of_int (pbsm_tid C)\<rparr>;
          (ok, evs) = send_to_all C msg
      in if ok then (True, evs)
         else (False, evs @ [Log ERROR ''ERROR in sending MSG_REQUEST_OWNERSHIP'']))"

text \<open>
  \<^verbatim>\<open>before_local_read\<close> up to \<^verbatim>\<open>wait_value_updated_.wait(lock)\<close>, and the statement after
  the wait. The pointer \<^verbatim>\<open>v\<close> is held across the wait.
\<close>

definition before_local_read ::
  "CommunicationHandler \<Rightarrow> 32 word \<Rightarrow> Policy \<Rightarrow> error + Policy \<times> event list \<times> unit outcome" where
  "before_local_read C var_id P =
     (let (v, d) = subscript (dictionary P) var_id;
          P1 = P\<lparr>dictionary := d\<rparr>
      in case v of
           None \<Rightarrow> Inr (P1, [], Returns ())
         | Some v \<Rightarrow>
             if state v = REMOTE_OWNER_NO_CACHED then
               (case requestCurrentValue C v of
                  Inl e \<Rightarrow> Inl e
                | Inr (ok, evs) \<Rightarrow> Inr (P1, evs, Blocks (wait_value_updated var_id) ()))
             else Inr (P1, [], Returns ()))"

definition before_local_read_resume :: "32 word \<Rightarrow> Policy \<Rightarrow> error + Policy" where
  "before_local_read_resume var_id P =
     (case registry (dictionary P) var_id of
        None \<Rightarrow> Inl DanglingPointer
      | Some v \<Rightarrow>
          Inr (P\<lparr>dictionary :=
                 AList.update var_id (Some (v\<lparr>state := REMOTE_OWNER_CACHED\<rparr>)) (dictionary P)\<rparr>))"

text \<open>
  \<^verbatim>\<open>before_local_write\<close> up to the wait of the branch taken, and the statement after
  the wait, which is the same assignment in both branches. The result of
  \<^verbatim>\<open>send_request_ownership\<close> is discarded by the caller.
\<close>

definition before_local_write ::
  "CommunicationHandler \<Rightarrow> 32 word \<Rightarrow> Policy \<Rightarrow> Policy \<times> event list \<times> bool outcome" where
  "before_local_write C var_id P =
     (let (v, d) = subscript (dictionary P) var_id;
          P1 = P\<lparr>dictionary := d\<rparr>
      in case v of
           None \<Rightarrow> (P1, [], Returns False)
         | Some v \<Rightarrow>
             if state v = REMOTE_OWNER_NO_CACHED \<or> state v = REMOTE_OWNER_CACHED then
               (let (ok, evs) = send_request_ownership C v
                in (P1, evs, Blocks (waiting_ownership_grant var_id) True))
             else if state v = OWNER_SHARED then
               (let ans = \<lparr>msg_type = MSG_INVALIDATE_COPY, msg_id = var_id,
                           msg_data = word_of_int (pbsm_tid C)\<rparr>;
                    (ok, evs) = send_to_all C ans;
                    evs1 = (if ok then evs
                            else evs @ [Log ERROR ''ERROR in sending MSG_INVALIDATE_COPY'']);
                    v1 = v\<lparr>counter := word_of_int (get_number_of_nodes C - 1)\<rparr>
                in (P1\<lparr>dictionary := AList.update var_id (Some v1) d\<rparr>, evs1,
                    Blocks (waiting_invalidate_copies var_id) ok))
             else (P1, [], Returns True))"

definition before_local_write_resume :: "32 word \<Rightarrow> Policy \<Rightarrow> error + Policy" where
  "before_local_write_resume var_id P =
     (case registry (dictionary P) var_id of
        None \<Rightarrow> Inl DanglingPointer
      | Some v \<Rightarrow>
          Inr (P\<lparr>dictionary :=
                 AList.update var_id (Some (v\<lparr>state := OWNER_NO_SHARED\<rparr>)) (dictionary P)\<rparr>))"

definition after_local_write :: "32 word \<Rightarrow> Policy \<Rightarrow> Policy" where
  "after_local_write var_id P = P"

definition after_remote_write :: "32 word \<Rightarrow> Policy \<Rightarrow> Policy \<times> event list" where
  "after_remote_write var_id P =
     (let (v, d) = subscript (dictionary P) var_id
      in case v of
           Some v \<Rightarrow> (P\<lparr>dictionary := d\<rparr>, [Notify (wait_value_updated var_id)])
         | None \<Rightarrow> (P\<lparr>dictionary := d\<rparr>, [Log WARNING ''Not unblocking wait_value_updated_'']))"

text \<open>
  \<^verbatim>\<open>change_owner\<close> locks the mutex of \<open>var\<close>; \<open>held\<close> tells whether the calling thread
  owns that mutex already.
\<close>

definition change_owner :: "bool \<Rightarrow> var_data \<Rightarrow> 64 word \<Rightarrow> error + bool \<times> var_data" where
  "change_owner held var node =
     (if held then Inl Relock
      else Inr (state var = OWNER_NO_SHARED \<or> state var = OWNER_SHARED,
                var\<lparr>state := REMOTE_OWNER_NO_CACHED, remote_owner := node\<rparr>))"

subsection \<open>policy.cpp\<close>

text \<open>
  What one turn of the loop of \<^verbatim>\<open>receive_messages\<close> is given by the network:
  \<open>rx_header\<close> is \<^verbatim>\<open>msg\<close> after the first \<^verbatim>\<open>recv_from\<close> and \<open>rx_header_ok\<close> the result
  of that call; for a \<^verbatim>\<open>MSG_SET_NEW_VALUE\<close>, \<open>rx_payload\<close> is the buffer \<^verbatim>\<open>d\<close> of
  \<^verbatim>\<open>msg.data.var_size\<close> bytes after the second \<^verbatim>\<open>recv_from\<close> and \<open>rx_payload_ok\<close> the
  result of that one.
\<close>

record incoming =
  rx_header :: msg_t
  rx_header_ok :: bool
  rx_payload :: "byte list"
  rx_payload_ok :: bool

text \<open>
  One turn of \<^verbatim>\<open>for(;;)\<close> in \<^verbatim>\<open>Policy::receive_messages(rem_node)\<close>. The per-variable
  mutex makes the turn atomic with respect to the methods above.
\<close>

definition receive_messages ::
  "CommunicationHandler \<Rightarrow> int \<Rightarrow> incoming \<Rightarrow> Policy \<Rightarrow> error + Policy \<times> event list" where
  "receive_messages C rem_node rx P =
     (let msg = rx_header rx;
          evs0 = (if rx_header_ok rx then []
                  else [Log ERROR ''Error in receiving data from '',
                        Log ERROR ''Error in receiving message''])
      in case msg_type msg of
        MSG_REQUEST_OWNERSHIP \<Rightarrow>
          (let (v, d) = subscript (dictionary P) (msg_id msg);
               P1 = P\<lparr>dictionary := d\<rparr>
           in case v of
                None \<Rightarrow> Inr (P1, evs0)
              | Some v \<Rightarrow>
                  if state v = OWNER_NO_SHARED \<or> state v = OWNER_SHARED then
                    (let v1 = v\<lparr>state := REMOTE_OWNER_NO_CACHED, remote_owner := msg_data msg\<rparr>;
                         P2 = P1\<lparr>dictionary := AList.update (msg_id msg) (Some v1) d\<rparr>;
                         ans = \<lparr>msg_type = MSG_GRANT_OWNERSHIP, msg_id = msg_id msg,
                                msg_data = word_of_int (pbsm_tid C)\<rparr>
                     in case send_to C ans (msg_data msg) of
                          Inl e \<Rightarrow> Inl e
                        | Inr (ok, evs) \<Rightarrow>
                            Inr (P2, evs0 @ evs @
                              (if ok then [] else [Log ERROR ''ERROR in sending grant message to ''])))
                  else
                    (let ans = \<lparr>msg_type = MSG_SET_NEW_OWNER, msg_id = msg_id msg,
                                msg_data = remote_owner v\<rparr>
                     in case send_to C ans (msg_data msg) of
                          Inl e \<Rightarrow> Inl e
                        | Inr (ok, evs) \<Rightarrow>
                            Inr (P1, evs0 @ evs @
                              (if ok then []
                               else [Log ERROR ''ERROR in sending MSG_SET_NEW_OWNER message to '']))))
      | MSG_GRANT_OWNERSHIP \<Rightarrow>
          (let (v, d) = subscript (dictionary P) (msg_id msg);
               P1 = P\<lparr>dictionary := d\<rparr>
           in case v of
                None \<Rightarrow>
                  Inr (P1, evs0 @
                    [Log ERROR ''Received MSG_GRANT_OWNERSHIP but no ownership was requested''])
              | Some v \<Rightarrow> Inr (P1, evs0 @ [Notify (waiting_ownership_grant (msg_id msg))]))
      | MSG_ASK_CURRENT_VALUE \<Rightarrow>
          (let (v, d) = subscript (dictionary P) (msg_id msg);
               P1 = P\<lparr>dictionary := d\<rparr>
           in case v of
                None \<Rightarrow> Inr (P1, evs0 @ [Log ERROR ''Variable not found''])
              | Some v \<Rightarrow>
                  if state v = REMOTE_OWNER_CACHED \<or> state v = REMOTE_OWNER_NO_CACHED then
                    (let ans = \<lparr>msg_type = MSG_SET_NEW_OWNER, msg_id = msg_id msg,
                                msg_data = remote_owner v\<rparr>
                     in case send_to C ans (msg_data msg) of
                          Inl e \<Rightarrow> Inl e
                        | Inr (ok, evs) \<Rightarrow>
                            Inr (P1, evs0 @ evs @
                              (if ok then []
                               else [Log ERROR ''ERROR in sending MSG_SET_NEW_OWNER message to ''])))
                  else
                    (let v1 = v\<lparr>state := OWNER_SHARED\<rparr>;
                         P2 = P1\<lparr>dictionary := AList.update (msg_id msg) (Some v1) d\<rparr>;
                         ans = \<lparr>msg_type = MSG_SET_NEW_VALUE, msg_id = msg_id msg,
                                msg_data = of_nat (get_size (variable v))\<rparr>;
                         data = get_value (variable v)
                     in case send_two_messages_to C ans data (msg_data msg) of
                          Inl e \<Rightarrow> Inl e
                        | Inr (ok, evs) \<Rightarrow> Inr (P2, evs0 @ evs)))
      | MSG_SET_NEW_VALUE \<Rightarrow>
          (let d = rx_payload rx;
               evs1 = (if rx_payload_ok rx then []
                       else [Log ERROR ''Error in receiving data from '',
                             Log ERROR ''Error in receiving data of MSG_SET_NEW_VALUE'']);
               (v, dict) = subscript (dictionary P) (msg_id msg);
               P1 = P\<lparr>dictionary := dict\<rparr>
           in case v of
                None \<Rightarrow> Inr (P1, evs0 @ evs1 @ [Log ERROR ''Variable  not found''])
              | Some v \<Rightarrow>
                  (case set_value (variable v) d of
                     None \<Rightarrow> Inl BufferOverrun
                   | Some a \<Rightarrow>
                       (let P2 = P1\<lparr>dictionary :=
                                     AList.update (msg_id msg) (Some (v\<lparr>variable := a\<rparr>)) dict\<rparr>;
                            (P3, evs) = after_remote_write (msg_id msg) P2
                        in Inr (P3, evs0 @ evs1 @ evs))))
      | MSG_BARRIER_BLOCK \<Rightarrow>
          (let evs1 = (if pbsm_tid C \<noteq> 0
                       then [Log ERROR ''Received message MSG_BARRIER_BLOCK but I'm not the master'']
                       else []);
               (elem, g) = subscript (master_waiting_barrier_grants P) (msg_id msg);
               c0 = (case elem of
                       None \<Rightarrow> word_of_int (get_number_of_nodes C)
                     | Some c \<Rightarrow> c);
               c1 = c0 - 1;
               P1 = P\<lparr>master_waiting_barrier_grants := AList.update (msg_id msg) (Some c1) g\<rparr>
           in Inr (P1, evs0 @ evs1 @ (if c1 = 0 then [Notify (wait_condition (msg_id msg))] else [])))
      | MSG_BARRIER_UNBLOCK \<Rightarrow>
          (let evs1 = (if pbsm_tid C = 0
                       then [Log ERROR ''Received message MSG_BARRIER_UNBLOCK but I'm the master'']
                       else [])
           in Inr (P, evs0 @ evs1 @ [Notify slave_wait_barrier]))
      | MSG_SET_NEW_OWNER \<Rightarrow>
          (let (v, d) = subscript (dictionary P) (msg_id msg);
               P1 = P\<lparr>dictionary := d\<rparr>
           in case v of
                None \<Rightarrow> Inr (P1, evs0)
              | Some v \<Rightarrow>
                  (case change_owner True v (msg_data msg) of
                     Inl e \<Rightarrow> Inl e
                   | Inr (was_owner, v1) \<Rightarrow>
                       (let (ok, evs) = send_request_ownership C v1
                        in Inr (P1\<lparr>dictionary := AList.update (msg_id msg) (Some v1) d\<rparr>,
                                evs0 @ evs))))
      | MSG_INVALIDATE_COPY \<Rightarrow>
          (let (v, d) = subscript (dictionary P) (msg_id msg);
               P1 = (case v of
                       None \<Rightarrow> P\<lparr>dictionary := d\<rparr>
                     | Some v \<Rightarrow>
                         P\<lparr>dictionary :=
                             AList.update (msg_id msg) (Some (v\<lparr>state := REMOTE_OWNER_NO_CACHED\<rparr>)) d\<rparr>);
               ans = \<lparr>msg_type = MSG_INVALIDATE_COPY_ACK, msg_id = msg_id msg,
                      msg_data = word_of_int (pbsm_tid C)\<rparr>
           in case send_to C ans (msg_data msg) of
                Inl e \<Rightarrow> Inl e
              | Inr (ok, evs) \<Rightarrow>
                  Inr (P1, evs0 @ evs @
                    (if ok then [] else [Log ERROR ''ERROR in sending MSG_INVALIDATE_COPY_ACK for variable ''])))
      | MSG_INVALIDATE_COPY_ACK \<Rightarrow>
          (let (v, d) = subscript (dictionary P) (msg_id msg);
               P1 = P\<lparr>dictionary := d\<rparr>
           in case v of
                None \<Rightarrow> Inr (P1, evs0)
              | Some v \<Rightarrow>
                  (let c1 = counter v - 1;
                       P2 = P1\<lparr>dictionary := AList.update (msg_id msg) (Some (v\<lparr>counter := c1\<rparr>)) d\<rparr>
                   in Inr (P2, evs0 @
                        (if c1 = 0 then [Notify (waiting_invalidate_copies (msg_id msg))] else []))))
      | MSG_not_an_enumerator \<Rightarrow> Inr (P, evs0 @ [Log ERROR ''ERROR: Unrecognized message'']))"

text \<open>
  \<^verbatim>\<open>thread_wait_master_barrier\<close>: the part before \<^verbatim>\<open>elem->wait_condition_.wait(lock)\<close>
  and the part after it, which also runs at once when the counter has reached zero.
  \<^verbatim>\<open>ans.data\<close> is never assigned in the two barrier methods; \<open>junk\<close> is what the
  stack holds there.
\<close>

definition thread_wait_master_barrier_resume ::
  "CommunicationHandler \<Rightarrow> 64 word \<Rightarrow> 32 word \<Rightarrow> Policy \<Rightarrow> Policy \<times> event list" where
  "thread_wait_master_barrier_resume C junk s P =
     (let P1 = P\<lparr>master_waiting_barrier_grants :=
                  AList.update s None (master_waiting_barrier_grants P)\<rparr>;
          ans = \<lparr>msg_type = MSG_BARRIER_UNBLOCK, msg_id = s, msg_data = junk\<rparr>;
          (ok, evs) = send_to_all C ans
      in (P1, if ok then evs else evs @ [Log ERROR ''ERROR in sending MSG_BARRIER_UNBLOCK'']))"

definition thread_wait_master_barrier ::
  "CommunicationHandler \<Rightarrow> 64 word \<Rightarrow> 32 word \<Rightarrow> Policy \<Rightarrow> Policy \<times> event list \<times> unit outcome" where
  "thread_wait_master_barrier C junk s P =
     (let (elem, g) = subscript (master_waiting_barrier_grants P) s;
          c0 = (case elem of
                  None \<Rightarrow> word_of_int (get_number_of_nodes C)
                | Some c \<Rightarrow> c);
          c1 = c0 - 1;
          P1 = P\<lparr>master_waiting_barrier_grants := AList.update s (Some c1) g\<rparr>
      in if c1 > 0 then (P1, [], Blocks (wait_condition s) ())
         else (let (P2, evs) = thread_wait_master_barrier_resume C junk s P1
               in (P2, evs, Returns ())))"

definition thread_wait_slave_barrier ::
  "CommunicationHandler \<Rightarrow> 64 word \<Rightarrow> 32 word \<Rightarrow> Policy
     \<Rightarrow> error + Policy \<times> event list \<times> unit outcome" where
  "thread_wait_slave_barrier C junk s P =
     (let ans = \<lparr>msg_type = MSG_BARRIER_BLOCK, msg_id = s, msg_data = junk\<rparr>
      in case send_to C ans 0 of
           Inl e \<Rightarrow> Inl e
         | Inr (ok, evs) \<Rightarrow>
             Inr (P, if ok then evs else evs @ [Log ERROR ''ERROR in sending MSG_BARRIER_BLOCK''],
                  Blocks slave_wait_barrier ()))"

definition thread_wait_barrier ::
  "CommunicationHandler \<Rightarrow> 64 word \<Rightarrow> 32 word \<Rightarrow> Policy
     \<Rightarrow> error + Policy \<times> event list \<times> unit outcome" where
  "thread_wait_barrier C junk s P =
     (if pbsm_tid C = 0 then Inr (thread_wait_master_barrier C junk s P)
      else thread_wait_slave_barrier C junk s P)"

subsection \<open>Start-up: policy.hpp, communication_handler.cpp, pbsm.hpp\<close>

text \<open>
  \<^verbatim>\<open>master_node_init\<close> and \<^verbatim>\<open>slave_node_init\<close> visit every entry of \<open>dictionary\<close> and
  write through its pointer without testing it.
\<close>

fun for_each_var :: "(var_data \<Rightarrow> var_data) \<Rightarrow> var_data cppmap \<Rightarrow> error + var_data cppmap" where
  "for_each_var f [] = Inr []"
| "for_each_var f ((k, None) # rest) = Inl NullPointer"
| "for_each_var f ((k, Some v) # rest) =
     (case for_each_var f rest of
        Inl e \<Rightarrow> Inl e
      | Inr rest1 \<Rightarrow> Inr ((k, Some (f v)) # rest1))"

definition slave_node_init :: "Policy \<Rightarrow> error + Policy" where
  "slave_node_init P =
     (case for_each_var (\<lambda>v. v\<lparr>state := REMOTE_OWNER_CACHED, remote_owner := 0\<rparr>) (dictionary P) of
        Inl e \<Rightarrow> Inl e
      | Inr d \<Rightarrow> Inr (P\<lparr>dictionary := d\<rparr>))"

definition master_node_init :: "Policy \<Rightarrow> error + Policy" where
  "master_node_init P =
     (case for_each_var (\<lambda>v. v\<lparr>state := OWNER_SHARED\<rparr>) (dictionary P) of
        Inl e \<Rightarrow> Inl e
      | Inr d \<Rightarrow> Inr (P\<lparr>dictionary := d\<rparr>))"

text \<open>\<^verbatim>\<open>start_receiving\<close>: the remote nodes for which a receiving thread is started.\<close>

definition start_receiving :: "CommunicationHandler \<Rightarrow> nat list" where
  "start_receiving C =
     filter (\<lambda>i. int i \<noteq> pbsm_tid C) [0 ..< nat (get_number_of_nodes C)]"

text \<open>
  Reading the configuration file. \<^verbatim>\<open>config_file >> str\<close> skips white space, then
  takes characters up to the next white space or the end of the file; \<^verbatim>\<open>eof()\<close> holds
  afterwards when the end of the file was met, which is when nothing is left.
\<close>

definition isspace :: "char \<Rightarrow> bool" where
  "isspace c = (c \<in> set [CHR '' '', CHR 0x09, CHR 0x0A, CHR 0x0B, CHR 0x0C, CHR 0x0D])"

definition extracted :: "string \<Rightarrow> string" where
  "extracted s = takeWhile (\<lambda>c. \<not> isspace c) (dropWhile isspace s)"

definition remaining :: "string \<Rightarrow> string" where
  "remaining s = dropWhile (\<lambda>c. \<not> isspace c) (dropWhile isspace s)"

text \<open>
  The loop of the constructor, \<^verbatim>\<open>for (int i = 0; ; ++i)\<close>, with the stream, the
  entries filled so far and \<open>number_of_nodes\<close> as its state. Entry \<open>i\<close> is the next
  one of the array, since \<open>i\<close> and \<open>number_of_nodes\<close> advance together.
\<close>

function CommunicationHandler_loop ::
  "int \<Rightarrow> int \<Rightarrow> string \<Rightarrow> connection list \<Rightarrow> int \<Rightarrow> connection list \<times> int \<times> event list" where
  "CommunicationHandler_loop tid i s conns n =
     (if remaining s = [] then (conns, n, [])
      else if n + 1 = MAX_NUMBER_OF_NODES then
        (conns @ [\<lparr>ip = extracted s, recv_port = network_port_offset + i,
                   send_port = network_port_offset + tid\<rparr>],
         n + 1, [Log WARNING ''Maximum number of nodes in config file reached''])
      else
        CommunicationHandler_loop tid (i + 1) (remaining s)
          (conns @ [\<lparr>ip = extracted s, recv_port = network_port_offset + i,
                     send_port = network_port_offset + tid\<rparr>])
          (n + 1))"
  by pat_completeness auto

termination
proof (relation "measure (\<lambda>(tid, i, s, conns, n). length s)")
  show "wf (measure (\<lambda>(tid, i, s, conns, n). length s))"
    by simp
next
  fix tid i :: int and s :: string and conns :: "connection list" and n :: int
  assume ne: "remaining s \<noteq> []"
  let ?t = "dropWhile isspace s"
  have b: "length ?t \<le> length s"
    by (rule length_dropWhile_le)
  from ne have "?t \<noteq> []"
    unfolding remaining_def by (cases ?t) simp_all
  then obtain c cs where t: "?t = c # cs"
    by (cases ?t) auto
  then have "\<not> isspace c"
    by (metis hd_dropWhile list.sel(1) list.distinct(1))
  with t have "remaining s = dropWhile (\<lambda>c. \<not> isspace c) cs"
    by (simp add: remaining_def)
  then have "length (remaining s) \<le> length cs"
    by (simp add: length_dropWhile_le)
  with t b have "length (remaining s) < length s"
    by simp
  then show "((tid, i + 1, remaining s,
               conns @ [\<lparr>ip = extracted s, recv_port = network_port_offset + i,
                          send_port = network_port_offset + tid\<rparr>], n + 1),
              (tid, i, s, conns, n)) \<in> measure (\<lambda>(tid, i, s, conns, n). length s)"
    by simp
qed

declare CommunicationHandler_loop.simps [simp del]

text \<open>
  The constructor reads \<^verbatim>\<open>pbsm_tid\<close> as it is when the singleton is built. \<open>file\<close> is
  the content of \<^verbatim>\<open>/etc/pbsm/hosts.conf\<close>, \<open>None\<close> when it cannot be opened; the
  exception thrown then is the left result.
\<close>

definition CommunicationHandler_ctor ::
  "int \<Rightarrow> (nat \<Rightarrow> bool) \<Rightarrow> string option \<Rightarrow> string + CommunicationHandler \<times> event list" where
  "CommunicationHandler_ctor tid net file =
     (case file of
        None \<Rightarrow> Inl ''Config file missing''
      | Some s \<Rightarrow>
          (let (conns, n, evs) = CommunicationHandler_loop tid 0 s [] 0
           in Inr (\<lparr>pbsm_tid = tid, connections = conns, number_of_nodes = n, send_ok = net\<rparr>,
                   evs)))"

text \<open>
  Sockets. \<open>sin_port\<close> is the port number that \<^verbatim>\<open>htons\<close> stores, the \<^verbatim>\<open>int\<close> cut to 16
  bits. The three system calls may fail, which the operating system decides.
\<close>

record sockaddr_in =
  sin_port :: "16 word"
  sin_addr :: "32 word"

definition INADDR_ANY :: "32 word" where
  "INADDR_ANY = 0"

definition htons :: "int \<Rightarrow> 16 word" where
  "htons p = word_of_int p"

record os =
  socket_ok :: "nat \<Rightarrow> bool"
  bind_ok :: "sockaddr_in \<Rightarrow> bool"
  connect_ok :: "sockaddr_in \<Rightarrow> bool"

datatype sockop = Bind nat sockaddr_in | Connect nat sockaddr_in

text \<open>
  \<^verbatim>\<open>start_recv_server\<close> binds the receive socket of the entry to \<^verbatim>\<open>INADDR_ANY\<close> and the
  entry's \<open>recv_port\<close>. \<^verbatim>\<open>start_send_client\<close> connects the send socket of the entry to
  the entry's \<open>send_port\<close>; the address in \<^verbatim>\<open>serv_addr\<close> is the one \<^verbatim>\<open>memset\<close> left,
  because \<^verbatim>\<open>memcpy(&addr, &serv_addr.sin_addr.s_addr, sizeof(addr))\<close> copies out of
  \<^verbatim>\<open>serv_addr\<close>, over the result of \<^verbatim>\<open>inet_aton\<close>. An entry that the constructor
  did not fill has no ports to read.
\<close>

datatype failure = runtime_error string | undefined_behaviour error

definition start_recv_server :: "os \<Rightarrow> CommunicationHandler \<Rightarrow> nat \<Rightarrow> failure + sockop" where
  "start_recv_server sys C entry =
     (if length (connections C) \<le> entry then Inl (undefined_behaviour OutOfBounds)
      else
        (let s = connections C ! entry in
         if \<not> socket_ok sys entry then Inl (runtime_error ''Receive socket error'')
         else
           (let serv_addr = \<lparr>sin_port = htons (recv_port s), sin_addr = INADDR_ANY\<rparr>
            in if \<not> bind_ok sys serv_addr then Inl (runtime_error ''Bind error'')
               else Inr (Bind entry serv_addr))))"

definition start_send_client :: "os \<Rightarrow> CommunicationHandler \<Rightarrow> nat \<Rightarrow> failure + sockop" where
  "start_send_client sys C entry =
     (if length (connections C) \<le> entry then Inl (undefined_behaviour OutOfBounds)
      else
        (let s = connections C ! entry in
         if \<not> socket_ok sys entry then Inl (runtime_error ''Send socket error'')
         else
           (let serv_addr = \<lparr>sin_port = htons (send_port s), sin_addr = 0\<rparr>
            in if \<not> connect_ok sys serv_addr then Inl (runtime_error ''Client socket error'')
               else Inr (Connect entry serv_addr))))"

text \<open>
  \<^verbatim>\<open>create_connections\<close>: every receive socket first, then every send socket, the own
  entry skipped. The first exception ends it.
\<close>

fun for_each_entry :: "(nat \<Rightarrow> failure + sockop) \<Rightarrow> int \<Rightarrow> nat list \<Rightarrow> failure + sockop list" where
  "for_each_entry start tid [] = Inr []"
| "for_each_entry start tid (i # rest) =
     (if int i \<noteq> tid then
        (case start i of
           Inl x \<Rightarrow> Inl x
         | Inr op1 \<Rightarrow>
             (case for_each_entry start tid rest of
                Inl x \<Rightarrow> Inl x
              | Inr ops \<Rightarrow> Inr (op1 # ops)))
      else for_each_entry start tid rest)"

definition create_connections :: "os \<Rightarrow> CommunicationHandler \<Rightarrow> failure + sockop list" where
  "create_connections sys C =
     (case for_each_entry (start_recv_server sys C) (pbsm_tid C) [0 ..< nat (number_of_nodes C)] of
        Inl x \<Rightarrow> Inl x
      | Inr binds \<Rightarrow>
          (case for_each_entry (start_send_client sys C) (pbsm_tid C)
                  [0 ..< nat (number_of_nodes C)] of
             Inl x \<Rightarrow> Inl x
           | Inr connects \<Rightarrow> Inr (binds @ connects)))"

text \<open>
  \<^verbatim>\<open>atoi\<close>: white space, an optional sign, then decimal digits up to the first other
  character. The C standard leaves the result undefined when the number does not fit
  an \<^verbatim>\<open>int\<close>, which is \<open>None\<close> here.
\<close>

definition isdigit :: "char \<Rightarrow> bool" where
  "isdigit c = (48 \<le> (of_char c :: nat) \<and> (of_char c :: nat) \<le> 57)"

fun digits_value :: "int \<Rightarrow> string \<Rightarrow> int" where
  "digits_value acc [] = acc"
| "digits_value acc (c # cs) =
     (if isdigit c then digits_value (10 * acc + (int (of_char c) - 48)) cs else acc)"

definition atoi :: "string \<Rightarrow> int option" where
  "atoi nptr =
     (let s = dropWhile isspace nptr;
          r = (case s of
                 [] \<Rightarrow> 0
               | c # cs \<Rightarrow>
                   if c = CHR ''-'' then - digits_value 0 cs
                   else if c = CHR ''+'' then digits_value 0 cs
                   else digits_value 0 s)
      in if - (2 ^ 31) \<le> r \<and> r < 2 ^ 31 then Some r else None)"

text \<open>
  How \<^verbatim>\<open>pbsm_init\<close> ends: the process exits, an exception leaves \<^verbatim>\<open>main\<close>, the
  behaviour is undefined, or the node runs with its policy, its connections, its
  sockets and a receiving thread for each listed remote node.
\<close>

datatype startup =
    Exit int
  | Uncaught string
  | Undefined
  | Started Policy CommunicationHandler "sockop list" "nat list"

text \<open>The status a parent process sees for \<^verbatim>\<open>exit(c)\<close>: the low eight bits.\<close>

definition exit_status :: "int \<Rightarrow> int" where
  "exit_status c = c mod 256"

text \<open>
  \<^verbatim>\<open>pbsm_init(argc, argv)\<close>, with \<open>argc\<close> the length of \<open>argv\<close>. The policy holds the
  variables constructed before \<^verbatim>\<open>main\<close>; the \<^verbatim>\<open>CommunicationHandler\<close> singleton is built
  by the first \<^verbatim>\<open>getInstance()\<close>, after \<^verbatim>\<open>pbsm_tid\<close> is assigned.
\<close>

definition pbsm_init ::
  "os \<Rightarrow> (nat \<Rightarrow> bool) \<Rightarrow> string option \<Rightarrow> string list \<Rightarrow> Policy \<Rightarrow> startup" where
  "pbsm_init sys net file argv P =
     (if length argv \<noteq> 2 then Exit (- 1)
      else
        (case atoi (argv ! 1) of
           None \<Rightarrow> Undefined
         | Some tid \<Rightarrow>
             (case (if tid = 0 then master_node_init P else slave_node_init P) of
                Inl e \<Rightarrow> Undefined
              | Inr P1 \<Rightarrow>
                  (case CommunicationHandler_ctor tid net file of
                     Inl x \<Rightarrow> Uncaught x
                   | Inr (C, evs) \<Rightarrow>
                       (case create_connections sys C of
                          Inl (runtime_error x) \<Rightarrow> Uncaught x
                        | Inl (undefined_behaviour e) \<Rightarrow> Undefined
                        | Inr ops \<Rightarrow> Started P1 C ops (start_receiving C))))))"

subsection \<open>Sequences of messages, and the words of the specification\<close>

text \<open>
  The receiving threads take their turns one after the other on a variable, since each
  turn holds the variable's mutex: a sequence of messages, each with the node it
  came from, is handled by as many turns of \<open>receive_messages\<close>.
\<close>

fun receive_sequence ::
  "CommunicationHandler \<Rightarrow> (int \<times> incoming) list \<Rightarrow> Policy \<Rightarrow> error + Policy \<times> event list" where
  "receive_sequence C [] P = Inr (P, [])"
| "receive_sequence C ((rem_node, rx) # rest) P =
     (case receive_messages C rem_node rx P of
        Inl e \<Rightarrow> Inl e
      | Inr (P1, evs1) \<Rightarrow>
          (case receive_sequence C rest P1 of
             Inl e \<Rightarrow> Inl e
           | Inr (P2, evs2) \<Rightarrow> Inr (P2, evs1 @ evs2)))"

definition is_ack :: "32 word \<Rightarrow> int \<times> incoming \<Rightarrow> bool" where
  "is_ack var_id x =
     (msg_type (rx_header (snd x)) = MSG_INVALIDATE_COPY_ACK \<and> msg_id (rx_header (snd x)) = var_id)"

text \<open>
  The counter logic of a barrier in the words of the specification: look the entry up
  or create it with the number of nodes, then decrement.
\<close>

definition counter_after_arrival ::
  "CommunicationHandler \<Rightarrow> (64 word) cppmap \<Rightarrow> 32 word \<Rightarrow> 64 word" where
  "counter_after_arrival C g s =
     (case registry g s of None \<Rightarrow> word_of_int (number_of_nodes C) | Some c \<Rightarrow> c) - 1"

text \<open>A configuration file in the format of the specification: one address per line.\<close>

definition file_of_lines :: "string list \<Rightarrow> string" where
  "file_of_lines ls = concat (map (\<lambda>l. l @ [CHR 0x0A]) ls)"

definition address_line :: "string \<Rightarrow> bool" where
  "address_line l = (l \<noteq> [] \<and> list_all (\<lambda>c. \<not> isspace c) l)"

subsection \<open>Concrete nodes\<close>

text \<open>
  Three hosts, a network on which every \<^verbatim>\<open>send\<close> succeeds, an operating system on
  which every socket call succeeds, and one shared \<^verbatim>\<open>int\<close> with id 7.
\<close>

definition hosts3 :: string where
  "hosts3 = file_of_lines [''10.0.0.1'', ''10.0.0.2'', ''10.0.0.3'']"

definition all_sent :: "nat \<Rightarrow> bool" where
  "all_sent i = True"

definition willing_os :: os where
  "willing_os = \<lparr>socket_ok = (\<lambda>i. True), bind_ok = (\<lambda>a. True), connect_ok = (\<lambda>a. True)\<rparr>"

definition node_of3 :: "int \<Rightarrow> CommunicationHandler" where
  "node_of3 t =
     \<lparr>pbsm_tid = t,
      connections =
        [\<lparr>ip = ''10.0.0.1'', recv_port = 2000, send_port = 2000 + t\<rparr>,
         \<lparr>ip = ''10.0.0.2'', recv_port = 2001, send_port = 2000 + t\<rparr>,
         \<lparr>ip = ''10.0.0.3'', recv_port = 2002, send_port = 2000 + t\<rparr>],
      number_of_nodes = 3, send_ok = all_sent\<rparr>"

definition var7 :: "state \<Rightarrow> 64 word \<Rightarrow> 64 word \<Rightarrow> byte list \<Rightarrow> var_data" where
  "var7 st owner c bytes =
     \<lparr>variable = \<lparr>ident = 7, data = bytes\<rparr>, state = st, remote_owner = owner, counter = c\<rparr>"

definition policy_with :: "var_data \<Rightarrow> Policy" where
  "policy_with v = \<lparr>dictionary = [(7, Some v)], master_waiting_barrier_grants = []\<rparr>"

definition received :: "msg_type_t \<Rightarrow> 32 word \<Rightarrow> 64 word \<Rightarrow> byte list \<Rightarrow> incoming" where
  "received t i d bytes =
     \<lparr>rx_header = \<lparr>msg_type = t, msg_id = i, msg_data = d\<rparr>, rx_header_ok = True,
      rx_payload = bytes, rx_payload_ok = True\<rparr>"

section \<open>Effects of the transport functions\<close>

lemma sends_append: "sends (xs @ ys) = sends xs @ sends ys"
  by (induction xs rule: sends.induct) simp_all

lemma notifies_append: "notifies (xs @ ys) = notifies xs @ notifies ys"
  by (induction xs rule: notifies.induct) simp_all

lemma payloads_append: "payloads (xs @ ys) = payloads xs @ payloads ys"
  by (induction xs rule: payloads.induct) simp_all

lemma lock_send_channel_silent:
  "sends (lock_send_channel C i) = []" "notifies (lock_send_channel C i) = []"
  "payloads (lock_send_channel C i) = []"
  by (simp_all add: lock_send_channel_def)

lemma unlock_send_channel_silent:
  "sends (unlock_send_channel C i) = []" "notifies (unlock_send_channel C i) = []"
  "payloads (unlock_send_channel C i) = []"
  by (simp_all add: unlock_send_channel_def)

lemmas effects_simps =
  sends_append notifies_append payloads_append lock_send_channel_silent unlock_send_channel_silent

lemma send_to_all_loop_sends:
  "sends (snd (send_to_all_loop C m js)) = map (\<lambda>i. (i, m)) (filter (\<lambda>i. int i \<noteq> pbsm_tid C) js)"
  by (induction js) (auto simp: effects_simps split: prod.splits)

lemma send_to_all_loop_quiet:
  "notifies (snd (send_to_all_loop C m js)) = [] \<and> payloads (snd (send_to_all_loop C m js)) = []"
  by (induction js) (auto simp: effects_simps split: prod.splits)

lemma send_to_all_sends:
  "sends (snd (send_to_all C m)) =
     map (\<lambda>i. (i, m)) (filter (\<lambda>i. int i \<noteq> pbsm_tid C) [0 ..< nat (number_of_nodes C)])"
  by (simp add: send_to_all_def send_to_all_loop_sends)

lemma send_to_all_quiet:
  "notifies (snd (send_to_all C m)) = []" "payloads (snd (send_to_all C m)) = []"
  by (simp_all add: send_to_all_def send_to_all_loop_quiet)

lemma send_to_peer:
  assumes "R \<noteq> word_of_int (pbsm_tid C)" and "uint R < MAX_NUMBER_OF_NODES"
  shows "\<exists>ok evs. send_to C m R = Inr (ok, evs) \<and> sends evs = [(unat R, m)]
            \<and> notifies evs = [] \<and> payloads evs = []"
  using assms by (auto simp: send_to_def effects_simps)

lemma peers_count_nat:
  "t < n \<Longrightarrow> length (filter (\<lambda>i. i \<noteq> t) [0 ..< n]) = n - 1"
proof (induction n)
  case 0
  then show ?case by simp
next
  case (Suc n)
  show ?case
  proof (cases "t < n")
    case True
    with Suc.IH show ?thesis by simp
  next
    case False
    with Suc.prems have "t = n" by simp
    then have "filter (\<lambda>i. i \<noteq> t) [0 ..< n] = [0 ..< n]"
      by (simp add: filter_id_conv)
    with \<open>t = n\<close> show ?thesis by simp
  qed
qed

lemma peers_count:
  assumes "0 \<le> t" and "t < n"
  shows "length (filter (\<lambda>i. int i \<noteq> t) [0 ..< nat n]) = nat (n - 1)"
proof -
  have "filter (\<lambda>i. int i \<noteq> t) [0 ..< nat n] = filter (\<lambda>i. i \<noteq> nat t) [0 ..< nat n]"
    using assms by (intro filter_cong) auto
  moreover have "nat t < nat n"
    using assms by simp
  ultimately show ?thesis
    using peers_count_nat [of "nat t" "nat n"] assms by (simp add: nat_diff_distrib)
qed

lemma unat_small_count:
  assumes "0 \<le> k" and "k \<le> 100"
  shows "unat (word_of_int k :: 64 word) = nat k"
proof -
  have "nat k \<le> 100"
    using assms by simp
  also have "(100::nat) < 2 ^ LENGTH(64)"
    by simp
  finally have "unat (of_nat (nat k) :: 64 word) = nat k"
    by (rule of_nat_inverse [OF refl])
  moreover have "(of_nat (nat k) :: 64 word) = word_of_int k"
    using assms(1) by simp
  ultimately show ?thesis by simp
qed

section \<open>The maps of the policy\<close>

lemma subscript_registered:
  "registry m k = Some v \<Longrightarrow> subscript m k = (Some v, m)"
  by (auto simp: registry_def subscript_def split: option.splits)

lemma subscript_fst: "fst (subscript m k) = registry m k"
  by (simp add: subscript_def registry_def split: option.splits)

lemma update_subscript: "AList.update k p (snd (subscript m k)) = AList.update k p m"
  by (induction m) (auto simp: subscript_def split: option.splits)

lemma registry_subscript: "registry (snd (subscript m k)) = registry m"
  by (rule ext) (auto simp: subscript_def registry_def split: option.splits if_splits)

lemma registry_update_same: "registry (AList.update k p m) k = p"
  by (simp add: registry_def update_conv')

lemma update_update_same:
  "AList.update k p (AList.update k q m) = AList.update k p m"
  by (induction m) auto

section \<open>Reading a variable\<close>

text \<open>
  C7. For a registered variable whose state is not \<open>REMOTE_OWNER_NO_CACHED\<close> (the
  specification's REMOTE_STALE), \<open>before_local_read\<close> returns at once, with no effect
  at all and the policy unchanged. A read that had to wait leaves the variable in
  \<open>REMOTE_OWNER_CACHED\<close>, so the read that follows it is of this kind: two reads in a
  row of a cached value send nothing.
\<close>

theorem before_local_read_idempotent:
  "(registry (dictionary P) var_id = Some v \<and> state v \<noteq> REMOTE_OWNER_NO_CACHED
      \<longrightarrow> before_local_read C var_id P = Inr (P, [], Returns ()))
   \<and> (before_local_read_resume var_id P = Inr P'
      \<longrightarrow> before_local_read C var_id P' = Inr (P', [], Returns ()))"
proof (intro conjI impI)
  assume a: "registry (dictionary P) var_id = Some v \<and> state v \<noteq> REMOTE_OWNER_NO_CACHED"
  then show "before_local_read C var_id P = Inr (P, [], Returns ())"
    by (simp add: before_local_read_def subscript_registered)
next
  assume r: "before_local_read_resume var_id P = Inr P'"
  then obtain v where
    P': "P' = P\<lparr>dictionary :=
              AList.update var_id (Some (v\<lparr>state := REMOTE_OWNER_CACHED\<rparr>)) (dictionary P)\<rparr>"
    by (auto simp: before_local_read_resume_def split: option.splits)
  have "registry (dictionary P') var_id = Some (v\<lparr>state := REMOTE_OWNER_CACHED\<rparr>)"
    by (simp add: P' registry_update_same)
  then show "before_local_read C var_id P' = Inr (P', [], Returns ())"
    by (simp add: before_local_read_def subscript_registered)
qed

theorem before_local_read_idempotent_witness:
  "registry (dictionary (policy_with (var7 REMOTE_OWNER_CACHED 0 0 [0, 0, 0, 0]))) 7
     = Some (var7 REMOTE_OWNER_CACHED 0 0 [0, 0, 0, 0])
   \<and> state (var7 REMOTE_OWNER_CACHED 0 0 [0, 0, 0, 0]) \<noteq> REMOTE_OWNER_NO_CACHED
   \<and> before_local_read_resume 7 (policy_with (var7 REMOTE_OWNER_NO_CACHED 0 0 [0, 0, 0, 0]))
     = Inr (policy_with (var7 REMOTE_OWNER_CACHED 0 0 [0, 0, 0, 0]))
   \<and> before_local_read (node_of3 1) 7 (policy_with (var7 REMOTE_OWNER_CACHED 0 0 [0, 0, 0, 0]))
     = Inr (policy_with (var7 REMOTE_OWNER_CACHED 0 0 [0, 0, 0, 0]), [], Returns ())"
proof -
  let ?v = "var7 REMOTE_OWNER_CACHED 0 0 [0, 0, 0, 0]"
  have h1: "registry (dictionary (policy_with ?v)) 7 = Some ?v \<and> state ?v \<noteq> REMOTE_OWNER_NO_CACHED"
    by (simp add: policy_with_def var7_def registry_def)
  have h2: "before_local_read_resume 7 (policy_with (var7 REMOTE_OWNER_NO_CACHED 0 0 [0, 0, 0, 0]))
              = Inr (policy_with ?v)"
    by (simp add: before_local_read_resume_def policy_with_def var7_def registry_def)
  from before_local_read_idempotent [of "policy_with ?v" 7 ?v "node_of3 1"] h1
  have "before_local_read (node_of3 1) 7 (policy_with ?v) = Inr (policy_with ?v, [], Returns ())"
    by blast
  with h1 h2 show ?thesis by blast
qed

section \<open>Writing a variable\<close>

text \<open>
  C1. The specification sends the ownership request to the node in \<open>remote_owner\<close>
  alone. \<open>send_request_ownership\<close> calls \<open>send_to_all\<close>: on node 1 of three, for a
  variable cached from node 0, the request goes to node 0 and to node 2. The thread
  then parks on \<open>waiting_ownership_grant\<close>, as specified.
\<close>

theorem before_local_write_requests_every_peer:
  "before_local_write (node_of3 1) 7 (policy_with (var7 REMOTE_OWNER_CACHED 0 0 [0, 0, 0, 0])) =
     (policy_with (var7 REMOTE_OWNER_CACHED 0 0 [0, 0, 0, 0]),
      [Send 0 \<lparr>msg_type = MSG_REQUEST_OWNERSHIP, msg_id = 7, msg_data = 1\<rparr>,
       Send 2 \<lparr>msg_type = MSG_REQUEST_OWNERSHIP, msg_id = 7, msg_data = 1\<rparr>],
      Blocks (waiting_ownership_grant 7) True)"
  by code_simp

text \<open>
  What \<open>before_local_write\<close> does for every registered variable owned elsewhere: the
  request goes to every other node of the configuration, the thread parks on
  \<open>waiting_ownership_grant\<close>, and the woken thread sets \<open>OWNER_NO_SHARED\<close>.
\<close>

lemma before_local_write_remote:
  assumes "registry (dictionary P) var_id = Some v"
    and "state v = REMOTE_OWNER_CACHED \<or> state v = REMOTE_OWNER_NO_CACHED"
  shows "\<exists>evs. before_local_write C var_id P = (P, evs, Blocks (waiting_ownership_grant var_id) True)
      \<and> sends evs =
          map (\<lambda>i. (i, \<lparr>msg_type = MSG_REQUEST_OWNERSHIP, msg_id = get_id (variable v),
                         msg_data = word_of_int (pbsm_tid C)\<rparr>))
            (filter (\<lambda>i. int i \<noteq> pbsm_tid C) [0 ..< nat (number_of_nodes C)])
      \<and> (\<exists>P1. before_local_write_resume var_id P = Inr P1
            \<and> map_option state (registry (dictionary P1) var_id) = Some OWNER_NO_SHARED)"
proof -
  let ?msg = "\<lparr>msg_type = MSG_REQUEST_OWNERSHIP, msg_id = get_id (variable v),
               msg_data = word_of_int (pbsm_tid C)\<rparr>"
  obtain ok evs0 where sa: "send_to_all C ?msg = (ok, evs0)"
    by (cases "send_to_all C ?msg")
  define evs where
    "evs = (if ok then evs0 else evs0 @ [Log ERROR ''ERROR in sending MSG_REQUEST_OWNERSHIP''])"
  have "send_request_ownership C v = (ok, evs)"
    using sa by (simp add: send_request_ownership_def evs_def)
  with assms have "before_local_write C var_id P = (P, evs, Blocks (waiting_ownership_grant var_id) True)"
    by (auto simp: before_local_write_def subscript_registered)
  moreover have "sends evs = map (\<lambda>i. (i, ?msg))
            (filter (\<lambda>i. int i \<noteq> pbsm_tid C) [0 ..< nat (number_of_nodes C)])"
    using send_to_all_sends [of C ?msg] sa by (simp add: evs_def effects_simps)
  moreover have "\<exists>P1. before_local_write_resume var_id P = Inr P1
            \<and> map_option state (registry (dictionary P1) var_id) = Some OWNER_NO_SHARED"
    using assms(1) by (simp add: before_local_write_resume_def registry_update_same)
  ultimately show ?thesis
    by blast
qed

text \<open>
  C2. An incoming \<open>MSG_REQUEST_OWNERSHIP\<close> about a registered variable, naming a
  peer \<open>R\<close> as its sender. An owner becomes \<open>REMOTE_OWNER_NO_CACHED\<close> with
  \<open>remote_owner = R\<close> and sends \<open>MSG_GRANT_OWNERSHIP\<close> to \<open>R\<close>; any other node sends
  \<open>MSG_SET_NEW_OWNER\<close> with its own \<open>remote_owner\<close> to \<open>R\<close> and keeps its policy as
  it is. Nothing else is sent, and nothing is signalled.
\<close>

theorem request_ownership_handler:
  assumes "msg_type (rx_header rx) = MSG_REQUEST_OWNERSHIP"
    and "registry (dictionary P) (msg_id (rx_header rx)) = Some v"
    and "msg_data (rx_header rx) = R"
    and "R \<noteq> word_of_int (pbsm_tid C)"
    and "uint R < MAX_NUMBER_OF_NODES"
  shows "(state v = OWNER_NO_SHARED \<or> state v = OWNER_SHARED \<longrightarrow>
           (\<exists>evs. receive_messages C rem_node rx P =
                  Inr (P\<lparr>dictionary :=
                         AList.update (msg_id (rx_header rx))
                           (Some (v\<lparr>state := REMOTE_OWNER_NO_CACHED, remote_owner := R\<rparr>))
                           (dictionary P)\<rparr>, evs)
               \<and> sends evs = [(unat R, \<lparr>msg_type = MSG_GRANT_OWNERSHIP,
                                       msg_id = msg_id (rx_header rx),
                                       msg_data = word_of_int (pbsm_tid C)\<rparr>)]
               \<and> payloads evs = [] \<and> notifies evs = []))
       \<and> (state v = REMOTE_OWNER_CACHED \<or> state v = REMOTE_OWNER_NO_CACHED \<longrightarrow>
           (\<exists>evs. receive_messages C rem_node rx P = Inr (P, evs)
               \<and> sends evs = [(unat R, \<lparr>msg_type = MSG_SET_NEW_OWNER,
                                       msg_id = msg_id (rx_header rx),
                                       msg_data = remote_owner v\<rparr>)]
               \<and> payloads evs = [] \<and> notifies evs = []))"
proof (intro conjI impI)
  assume owner: "state v = OWNER_NO_SHARED \<or> state v = OWNER_SHARED"
  let ?ans = "\<lparr>msg_type = MSG_GRANT_OWNERSHIP, msg_id = msg_id (rx_header rx),
               msg_data = word_of_int (pbsm_tid C)\<rparr>"
  from send_to_peer [OF assms(4,5), of ?ans]
  obtain ok evs where s: "send_to C ?ans R = Inr (ok, evs)" "sends evs = [(unat R, ?ans)]"
    "notifies evs = []" "payloads evs = []"
    by blast
  with owner assms(1,2,3) show "\<exists>evs. receive_messages C rem_node rx P =
                  Inr (P\<lparr>dictionary :=
                         AList.update (msg_id (rx_header rx))
                           (Some (v\<lparr>state := REMOTE_OWNER_NO_CACHED, remote_owner := R\<rparr>))
                           (dictionary P)\<rparr>, evs)
               \<and> sends evs = [(unat R, ?ans)]
               \<and> payloads evs = [] \<and> notifies evs = []"
    by (auto simp: receive_messages_def subscript_registered effects_simps)
next
  assume remote: "state v = REMOTE_OWNER_CACHED \<or> state v = REMOTE_OWNER_NO_CACHED"
  let ?ans = "\<lparr>msg_type = MSG_SET_NEW_OWNER, msg_id = msg_id (rx_header rx),
               msg_data = remote_owner v\<rparr>"
  from send_to_peer [OF assms(4,5), of ?ans]
  obtain ok evs where s: "send_to C ?ans R = Inr (ok, evs)" "sends evs = [(unat R, ?ans)]"
    "notifies evs = []" "payloads evs = []"
    by blast
  with remote assms(1,2,3) show "\<exists>evs. receive_messages C rem_node rx P = Inr (P, evs)
               \<and> sends evs = [(unat R, ?ans)]
               \<and> payloads evs = [] \<and> notifies evs = []"
    by (auto simp: receive_messages_def subscript_registered effects_simps)
qed

text \<open>
  The master of three nodes grants variable 7 to node 1; node 2, which does not own
  it, redirects node 1 to node 0.
\<close>

theorem request_ownership_handler_witness:
  "msg_type (rx_header (received MSG_REQUEST_OWNERSHIP 7 1 [])) = MSG_REQUEST_OWNERSHIP
   \<and> registry (dictionary (policy_with (var7 OWNER_SHARED 0 0 [0, 0, 0, 0])))
        (msg_id (rx_header (received MSG_REQUEST_OWNERSHIP 7 1 [])))
       = Some (var7 OWNER_SHARED 0 0 [0, 0, 0, 0])
   \<and> registry (dictionary (policy_with (var7 REMOTE_OWNER_NO_CACHED 0 0 [0, 0, 0, 0])))
        (msg_id (rx_header (received MSG_REQUEST_OWNERSHIP 7 1 [])))
       = Some (var7 REMOTE_OWNER_NO_CACHED 0 0 [0, 0, 0, 0])
   \<and> (1 :: 64 word) \<noteq> word_of_int (pbsm_tid (node_of3 0))
   \<and> (1 :: 64 word) \<noteq> word_of_int (pbsm_tid (node_of3 2))
   \<and> uint (1 :: 64 word) < MAX_NUMBER_OF_NODES
   \<and> sends (snd (projr (receive_messages (node_of3 0) 1 (received MSG_REQUEST_OWNERSHIP 7 1 [])
              (policy_with (var7 OWNER_SHARED 0 0 [0, 0, 0, 0])))))
       = [(1, \<lparr>msg_type = MSG_GRANT_OWNERSHIP, msg_id = 7, msg_data = 0\<rparr>)]
   \<and> fst (projr (receive_messages (node_of3 0) 1 (received MSG_REQUEST_OWNERSHIP 7 1 [])
              (policy_with (var7 OWNER_SHARED 0 0 [0, 0, 0, 0]))))
       = policy_with (var7 REMOTE_OWNER_NO_CACHED 1 0 [0, 0, 0, 0])
   \<and> sends (snd (projr (receive_messages (node_of3 2) 1 (received MSG_REQUEST_OWNERSHIP 7 1 [])
              (policy_with (var7 REMOTE_OWNER_NO_CACHED 0 0 [0, 0, 0, 0])))))
       = [(1, \<lparr>msg_type = MSG_SET_NEW_OWNER, msg_id = 7, msg_data = 0\<rparr>)]
   \<and> fst (projr (receive_messages (node_of3 2) 1 (received MSG_REQUEST_OWNERSHIP 7 1 [])
              (policy_with (var7 REMOTE_OWNER_NO_CACHED 0 0 [0, 0, 0, 0]))))
       = policy_with (var7 REMOTE_OWNER_NO_CACHED 0 0 [0, 0, 0, 0])"
proof -
  let ?rx = "received MSG_REQUEST_OWNERSHIP 7 1 []"
  let ?own = "var7 OWNER_SHARED 0 0 [0, 0, 0, 0]"
  let ?rem = "var7 REMOTE_OWNER_NO_CACHED 0 0 [0, 0, 0, 0]"
  have h1: "msg_type (rx_header ?rx) = MSG_REQUEST_OWNERSHIP"
    by (simp add: received_def)
  have h2: "registry (dictionary (policy_with ?own)) (msg_id (rx_header ?rx)) = Some ?own"
    by (simp add: received_def policy_with_def registry_def)
  have h2': "registry (dictionary (policy_with ?rem)) (msg_id (rx_header ?rx)) = Some ?rem"
    by (simp add: received_def policy_with_def registry_def)
  have h3: "msg_data (rx_header ?rx) = 1"
    by (simp add: received_def)
  have h4: "(1 :: 64 word) \<noteq> word_of_int (pbsm_tid (node_of3 0))"
    by (simp add: node_of3_def)
  have h4': "(1 :: 64 word) \<noteq> word_of_int (pbsm_tid (node_of3 2))"
    by (simp add: node_of3_def)
  have h5: "uint (1 :: 64 word) < MAX_NUMBER_OF_NODES"
    by (simp add: MAX_NUMBER_OF_NODES_def)
  have own: "state ?own = OWNER_NO_SHARED \<or> state ?own = OWNER_SHARED"
    by (simp add: var7_def)
  have rem: "state ?rem = REMOTE_OWNER_CACHED \<or> state ?rem = REMOTE_OWNER_NO_CACHED"
    by (simp add: var7_def)
  from request_ownership_handler [OF h1 h2 h3 h4 h5, of 1] own
  obtain evs where a: "receive_messages (node_of3 0) 1 ?rx (policy_with ?own) =
      Inr ((policy_with ?own)\<lparr>dictionary := AList.update (msg_id (rx_header ?rx))
             (Some (?own\<lparr>state := REMOTE_OWNER_NO_CACHED, remote_owner := 1\<rparr>))
             (dictionary (policy_with ?own))\<rparr>, evs)"
    "sends evs = [(unat (1 :: 64 word), \<lparr>msg_type = MSG_GRANT_OWNERSHIP,
         msg_id = msg_id (rx_header ?rx), msg_data = word_of_int (pbsm_tid (node_of3 0))\<rparr>)]"
    by blast
  from request_ownership_handler [OF h1 h2' h3 h4' h5, of 1] rem
  obtain evs' where b: "receive_messages (node_of3 2) 1 ?rx (policy_with ?rem) =
      Inr (policy_with ?rem, evs')"
    "sends evs' = [(unat (1 :: 64 word), \<lparr>msg_type = MSG_SET_NEW_OWNER,
         msg_id = msg_id (rx_header ?rx), msg_data = remote_owner ?rem\<rparr>)]"
    by blast
  have c: "(policy_with ?own)\<lparr>dictionary := AList.update (msg_id (rx_header ?rx))
             (Some (?own\<lparr>state := REMOTE_OWNER_NO_CACHED, remote_owner := 1\<rparr>))
             (dictionary (policy_with ?own))\<rparr> = policy_with (var7 REMOTE_OWNER_NO_CACHED 1 0 [0, 0, 0, 0])"
    by (simp add: policy_with_def var7_def received_def)
  from a b c h1 h2 h2' h4 h4' h5 show ?thesis
    by (simp add: received_def node_of3_def var7_def)
qed

lemma ack_step:
  assumes "msg_type (rx_header rx) = MSG_INVALIDATE_COPY_ACK"
    and "registry (dictionary P) (msg_id (rx_header rx)) = Some v"
  shows "\<exists>evs. receive_messages C rem_node rx P =
           Inr (P\<lparr>dictionary := AList.update (msg_id (rx_header rx))
                     (Some (v\<lparr>counter := counter v - 1\<rparr>)) (dictionary P)\<rparr>, evs)
         \<and> sends evs = [] \<and> payloads evs = []
         \<and> notifies evs = (if counter v - 1 = 0
                            then [waiting_invalidate_copies (msg_id (rx_header rx))] else [])"
  using assms by (auto simp: receive_messages_def subscript_registered effects_simps Let_def)

lemma acks_count:
  assumes "list_all (is_ack var_id) acks"
    and "registry (dictionary P) var_id = Some v"
    and "length acks \<le> unat (counter v)"
  shows "\<exists>evs. receive_sequence C acks P =
           Inr (P\<lparr>dictionary := (if acks = [] then dictionary P else AList.update var_id
                     (Some (v\<lparr>counter := counter v - of_nat (length acks)\<rparr>)) (dictionary P))\<rparr>, evs)
         \<and> sends evs = [] \<and> payloads evs = []
         \<and> notifies evs = (if acks \<noteq> [] \<and> length acks = unat (counter v)
                            then [waiting_invalidate_copies var_id] else [])"
  using assms
proof (induction acks arbitrary: P v)
  case Nil
  then show ?case by simp
next
  case (Cons a acks)
  obtain rem_node rx where a: "a = (rem_node, rx)" by (cases a)
  from Cons.prems(1) have "is_ack var_id a" and rest: "list_all (is_ack var_id) acks"
    by simp_all
  with a have ty: "msg_type (rx_header rx) = MSG_INVALIDATE_COPY_ACK"
    and id: "msg_id (rx_header rx) = var_id"
    by (simp_all add: is_ack_def)
  let ?v1 = "v\<lparr>counter := counter v - 1\<rparr>"
  let ?P1 = "P\<lparr>dictionary := AList.update var_id (Some ?v1) (dictionary P)\<rparr>"
  from ack_step [of rx P v C rem_node] ty id Cons.prems(2)
  obtain evs1 where s1: "receive_messages C rem_node rx P = Inr (?P1, evs1)"
    "sends evs1 = []" "payloads evs1 = []"
    "notifies evs1 = (if counter v - 1 = 0 then [waiting_invalidate_copies var_id] else [])"
    by auto
  have pos: "0 < unat (counter v)"
    using Cons.prems(3) by simp
  then have u1: "unat (counter v - 1) = unat (counter v) - 1"
    by (simp add: unat_minus_one unat_gt_0)
  have reg1: "registry (dictionary ?P1) var_id = Some ?v1"
    by (simp add: registry_update_same)
  have len1: "length acks \<le> unat (counter ?v1)"
    using Cons.prems(3) u1 by simp
  from Cons.IH [OF rest reg1 len1]
  obtain evs2 where s2: "receive_sequence C acks ?P1 =
           Inr (?P1\<lparr>dictionary := (if acks = [] then dictionary ?P1 else AList.update var_id
                     (Some (?v1\<lparr>counter := counter ?v1 - of_nat (length acks)\<rparr>)) (dictionary ?P1))\<rparr>, evs2)"
    "sends evs2 = []" "payloads evs2 = []"
    "notifies evs2 = (if acks \<noteq> [] \<and> length acks = unat (counter ?v1)
                            then [waiting_invalidate_copies var_id] else [])"
    by blast
  have z: "counter v - 1 = 0 \<longleftrightarrow> unat (counter v) = 1"
    using u1 pos by (metis One_nat_def Suc_pred diff_self_eq_0 unat_eq_zero)
  show ?case
  proof (cases "acks = []")
    case True
    with s1 s2 a z show ?thesis
      by (simp add: effects_simps)
  next
    case False
    with len1 u1 have "unat (counter v) \<noteq> 1" by (cases acks) auto
    with s1 s2 a z False u1 pos show ?thesis
      by (auto simp: effects_simps update_update_same algebra_simps)
  qed
qed

text \<open>
  C3. A node with a valid id among \<open>N\<close> nodes writes a variable it owns in state
  \<open>OWNER_SHARED\<close>. \<open>before_local_write\<close> sends \<open>MSG_INVALIDATE_COPY\<close> to each of the
  \<open>N - 1\<close> other nodes, sets the counter to \<open>N - 1\<close> and parks the thread on
  \<open>waiting_invalidate_copies\<close>. Each \<open>MSG_INVALIDATE_COPY_ACK\<close> lowers the counter by
  one: after \<open>k \<le> N - 1\<close> of them it is \<open>N - 1 - k\<close>, and the condition has been
  signalled, once, exactly when \<open>k = N - 1\<close>, by the last of them. The woken thread
  sets the state to \<open>OWNER_NO_SHARED\<close> (the specification's OWNER_EXCLUSIVE).
\<close>

theorem before_local_write_owner_shared:
  assumes "registry (dictionary P) var_id = Some v"
    and "state v = OWNER_SHARED"
    and "0 \<le> pbsm_tid C"
    and "pbsm_tid C < number_of_nodes C"
    and "number_of_nodes C \<le> MAX_NUMBER_OF_NODES"
    and "list_all (is_ack var_id) acks"
    and "int (length acks) \<le> number_of_nodes C - 1"
  shows "\<exists>ret evs P1.
      before_local_write C var_id P = (P1, evs, Blocks (waiting_invalidate_copies var_id) ret)
    \<and> sends evs =
        map (\<lambda>i. (i, \<lparr>msg_type = MSG_INVALIDATE_COPY, msg_id = var_id,
                       msg_data = word_of_int (pbsm_tid C)\<rparr>))
          (filter (\<lambda>i. int i \<noteq> pbsm_tid C) [0 ..< nat (number_of_nodes C)])
    \<and> int (length (sends evs)) = number_of_nodes C - 1
    \<and> P1 = P\<lparr>dictionary := AList.update var_id
                  (Some (v\<lparr>counter := word_of_int (number_of_nodes C - 1)\<rparr>)) (dictionary P)\<rparr>
    \<and> (\<exists>P2 evs2.
          receive_sequence C acks P1 = Inr (P2, evs2)
        \<and> registry (dictionary P2) var_id =
            Some (v\<lparr>counter := word_of_int (number_of_nodes C - 1 - int (length acks))\<rparr>)
        \<and> sends evs2 = []
        \<and> notifies evs2 =
            (if acks \<noteq> [] \<and> int (length acks) = number_of_nodes C - 1
             then [waiting_invalidate_copies var_id] else [])
        \<and> (\<exists>P3. before_local_write_resume var_id P2 = Inr P3
               \<and> map_option state (registry (dictionary P3) var_id) = Some OWNER_NO_SHARED))"
proof -
  let ?N = "number_of_nodes C"
  let ?ans = "\<lparr>msg_type = MSG_INVALIDATE_COPY, msg_id = var_id,
               msg_data = word_of_int (pbsm_tid C)\<rparr>"
  let ?v1 = "v\<lparr>counter := word_of_int (?N - 1)\<rparr>"
  let ?P1 = "P\<lparr>dictionary := AList.update var_id (Some ?v1) (dictionary P)\<rparr>"
  obtain ok evs0 where sa: "send_to_all C ?ans = (ok, evs0)"
    by (cases "send_to_all C ?ans")
  define evs where
    "evs = (if ok then evs0 else evs0 @ [Log ERROR ''ERROR in sending MSG_INVALIDATE_COPY''])"
  have blw: "before_local_write C var_id P = (?P1, evs, Blocks (waiting_invalidate_copies var_id) ok)"
    using assms(1,2) sa
    by (simp add: before_local_write_def subscript_registered evs_def get_number_of_nodes_def)
  have "sends evs = sends evs0"
    by (simp add: evs_def effects_simps)
  also have "\<dots> = map (\<lambda>i. (i, ?ans)) (filter (\<lambda>i. int i \<noteq> pbsm_tid C) [0 ..< nat ?N])"
    using send_to_all_sends [of C ?ans] sa by simp
  finally have se: "sends evs =
      map (\<lambda>i. (i, ?ans)) (filter (\<lambda>i. int i \<noteq> pbsm_tid C) [0 ..< nat ?N])" .
  have le: "int (length (sends evs)) = ?N - 1"
    using peers_count [OF assms(3,4)] assms(3,4) by (simp add: se)
  have bound: "0 \<le> ?N - 1" "?N - 1 \<le> 100"
    using assms(3,4,5) by (simp_all add: MAX_NUMBER_OF_NODES_def)
  have un: "unat (word_of_int (?N - 1) :: 64 word) = nat (?N - 1)"
    using bound by (rule unat_small_count)
  have reg1: "registry (dictionary ?P1) var_id = Some ?v1"
    by (simp add: registry_update_same)
  have len: "length acks \<le> unat (counter ?v1)"
    using assms(7) un by simp
  let ?P2 = "?P1\<lparr>dictionary := (if acks = [] then dictionary ?P1 else AList.update var_id
                     (Some (?v1\<lparr>counter := counter ?v1 - of_nat (length acks)\<rparr>)) (dictionary ?P1))\<rparr>"
  from acks_count [OF assms(6) reg1 len, of C]
  obtain evs2 where rs: "receive_sequence C acks ?P1 = Inr (?P2, evs2)"
    "sends evs2 = []"
    "notifies evs2 = (if acks \<noteq> [] \<and> length acks = unat (counter ?v1)
                            then [waiting_invalidate_copies var_id] else [])"
    by blast
  have cnt: "(word_of_int (?N - 1) :: 64 word) - of_nat (length acks)
               = word_of_int (?N - 1 - int (length acks))"
    by simp
  have reg2: "registry (dictionary ?P2) var_id =
            Some (v\<lparr>counter := word_of_int (?N - 1 - int (length acks))\<rparr>)"
    using cnt by (simp add: registry_update_same)
  have no: "notifies evs2 = (if acks \<noteq> [] \<and> int (length acks) = ?N - 1
             then [waiting_invalidate_copies var_id] else [])"
    using rs(3) un bound by auto
  have res: "\<exists>P3. before_local_write_resume var_id ?P2 = Inr P3
               \<and> map_option state (registry (dictionary P3) var_id) = Some OWNER_NO_SHARED"
    using reg2 by (simp add: before_local_write_resume_def registry_update_same)
  from blw se le rs(1,2) reg2 no res show ?thesis
    by blast
qed

text \<open>
  The master of three nodes writes variable 7: two invalidations go out, the first
  acknowledgement signals nothing and the second one signals the condition.
\<close>

theorem before_local_write_owner_shared_witness:
  "registry (dictionary (policy_with (var7 OWNER_SHARED 0 0 [0, 0, 0, 0]))) 7
     = Some (var7 OWNER_SHARED 0 0 [0, 0, 0, 0])
   \<and> state (var7 OWNER_SHARED 0 0 [0, 0, 0, 0]) = OWNER_SHARED
   \<and> 0 \<le> pbsm_tid (node_of3 0)
   \<and> pbsm_tid (node_of3 0) < number_of_nodes (node_of3 0)
   \<and> number_of_nodes (node_of3 0) \<le> MAX_NUMBER_OF_NODES
   \<and> list_all (is_ack 7)
        [(1, received MSG_INVALIDATE_COPY_ACK 7 1 []), (2, received MSG_INVALIDATE_COPY_ACK 7 2 [])]
   \<and> int (length [(1 :: int, received MSG_INVALIDATE_COPY_ACK 7 1 []),
                    (2, received MSG_INVALIDATE_COPY_ACK 7 2 [])])
        \<le> number_of_nodes (node_of3 0) - 1
   \<and> int (length (sends (fst (snd (before_local_write (node_of3 0) 7
              (policy_with (var7 OWNER_SHARED 0 0 [0, 0, 0, 0]))))))) = 2
   \<and> notifies (snd (projr (receive_sequence (node_of3 0)
              [(1, received MSG_INVALIDATE_COPY_ACK 7 1 [])]
              (fst (before_local_write (node_of3 0) 7
                 (policy_with (var7 OWNER_SHARED 0 0 [0, 0, 0, 0]))))))) = []
   \<and> notifies (snd (projr (receive_sequence (node_of3 0)
              [(1, received MSG_INVALIDATE_COPY_ACK 7 1 []), (2, received MSG_INVALIDATE_COPY_ACK 7 2 [])]
              (fst (before_local_write (node_of3 0) 7
                 (policy_with (var7 OWNER_SHARED 0 0 [0, 0, 0, 0])))))))
       = [waiting_invalidate_copies 7]"
proof -
  let ?v = "var7 OWNER_SHARED 0 0 [0, 0, 0, 0]"
  let ?C = "node_of3 0"
  let ?a1 = "(1 :: int, received MSG_INVALIDATE_COPY_ACK 7 1 [])"
  let ?a2 = "(2 :: int, received MSG_INVALIDATE_COPY_ACK 7 2 [])"
  have h1: "registry (dictionary (policy_with ?v)) 7 = Some ?v"
    by (simp add: policy_with_def registry_def)
  have h2: "state ?v = OWNER_SHARED"
    by (simp add: var7_def)
  have h3: "0 \<le> pbsm_tid ?C" and h4: "pbsm_tid ?C < number_of_nodes ?C"
    and h5: "number_of_nodes ?C \<le> MAX_NUMBER_OF_NODES"
    by (simp_all add: node_of3_def MAX_NUMBER_OF_NODES_def)
  have h6: "list_all (is_ack 7) [?a1, ?a2]" and h6': "list_all (is_ack 7) [?a1]"
    by (simp_all add: is_ack_def received_def)
  have h7: "int (length [?a1, ?a2]) \<le> number_of_nodes ?C - 1"
    and h7': "int (length [?a1]) \<le> number_of_nodes ?C - 1"
    by (simp_all add: node_of3_def)
  have n: "number_of_nodes ?C - 1 = 2"
    by (simp add: node_of3_def)
  from before_local_write_owner_shared [OF h1 h2 h3 h4 h5 h6 h7]
  obtain ret evs P1 evs2 P2 where a:
    "before_local_write ?C 7 (policy_with ?v) = (P1, evs, Blocks (waiting_invalidate_copies 7) ret)"
    "int (length (sends evs)) = number_of_nodes ?C - 1"
    "receive_sequence ?C [?a1, ?a2] P1 = Inr (P2, evs2)"
    "notifies evs2 = (if [?a1, ?a2] \<noteq> [] \<and> int (length [?a1, ?a2]) = number_of_nodes ?C - 1
             then [waiting_invalidate_copies 7] else [])"
    by blast
  from before_local_write_owner_shared [OF h1 h2 h3 h4 h5 h6' h7']
  obtain ret' evs' P1' evs2' P2' where b:
    "before_local_write ?C 7 (policy_with ?v) = (P1', evs', Blocks (waiting_invalidate_copies 7) ret')"
    "receive_sequence ?C [?a1] P1' = Inr (P2', evs2')"
    "notifies evs2' = (if [?a1] \<noteq> [] \<and> int (length [?a1]) = number_of_nodes ?C - 1
             then [waiting_invalidate_copies 7] else [])"
    by blast
  from a b have same: "P1' = P1" by simp
  have c1: "int (length (sends (fst (snd (before_local_write ?C 7 (policy_with ?v)))))) = 2"
    using a(1,2) n by simp
  have c2: "notifies (snd (projr (receive_sequence ?C [?a1]
              (fst (before_local_write ?C 7 (policy_with ?v)))))) = []"
    using b n by simp
  have c3: "notifies (snd (projr (receive_sequence ?C [?a1, ?a2]
              (fst (before_local_write ?C 7 (policy_with ?v)))))) = [waiting_invalidate_copies 7]"
    using a n by simp
  from h1 h2 h3 h4 h5 h6 h7 c1 c2 c3 show ?thesis
    by blast
qed

section \<open>Messages about values and unknown variables\<close>

text \<open>
  C4, as the specification states it: the handler of \<open>MSG_SET_NEW_VALUE\<close> would leave
  the variable in \<open>REMOTE_OWNER_CACHED\<close>. On node 1 of three, variable 7 is in state
  \<open>REMOTE_OWNER_NO_CACHED\<close> and a value arrives from node 0: the bytes are stored and
  the condition is signalled, and the state is \<open>REMOTE_OWNER_NO_CACHED\<close> as before.
\<close>

theorem set_new_value_keeps_state:
  "receive_messages (node_of3 1) 0 (received MSG_SET_NEW_VALUE 7 4 [5, 0, 0, 0])
      (policy_with (var7 REMOTE_OWNER_NO_CACHED 0 0 [0, 0, 0, 0]))
     = Inr (policy_with (var7 REMOTE_OWNER_NO_CACHED 0 0 [5, 0, 0, 0]),
            [Notify (wait_value_updated 7)])
   \<and> state (var7 REMOTE_OWNER_NO_CACHED 0 0 [5, 0, 0, 0]) \<noteq> REMOTE_OWNER_CACHED"
  by code_simp

text \<open>
  C4, amended. For a registered variable and a buffer that holds at least the bytes of
  the variable, the handler of \<open>MSG_SET_NEW_VALUE\<close> writes the received bytes into the
  value, signals \<open>wait_value_updated\<close>, sends nothing and changes nothing else: the
  state stays what it was. The state becomes \<open>REMOTE_OWNER_CACHED\<close> when the reader
  that waited in \<open>before_local_read\<close> resumes.
\<close>

theorem set_new_value_handler:
  assumes "msg_type (rx_header rx) = MSG_SET_NEW_VALUE"
    and "registry (dictionary P) (msg_id (rx_header rx)) = Some v"
    and "get_size (variable v) \<le> length (rx_payload rx)"
  shows "\<exists>evs P1.
      receive_messages C rem_node rx P = Inr (P1, evs)
    \<and> P1 = P\<lparr>dictionary := AList.update (msg_id (rx_header rx))
               (Some (v\<lparr>variable := (variable v)
                         \<lparr>data := take (get_size (variable v)) (rx_payload rx)\<rparr>\<rparr>))
               (dictionary P)\<rparr>
    \<and> map_option state (registry (dictionary P1) (msg_id (rx_header rx))) = Some (state v)
    \<and> notifies evs = [wait_value_updated (msg_id (rx_header rx))]
    \<and> sends evs = [] \<and> payloads evs = []
    \<and> (\<exists>P2. before_local_read_resume (msg_id (rx_header rx)) P1 = Inr P2
           \<and> map_option state (registry (dictionary P2) (msg_id (rx_header rx)))
               = Some REMOTE_OWNER_CACHED)"
proof -
  let ?k = "msg_id (rx_header rx)"
  let ?v1 = "v\<lparr>variable := (variable v)\<lparr>data := take (get_size (variable v)) (rx_payload rx)\<rparr>\<rparr>"
  let ?P1 = "P\<lparr>dictionary := AList.update ?k (Some ?v1) (dictionary P)\<rparr>"
  have sv: "set_value (variable v) (rx_payload rx)
              = Some ((variable v)\<lparr>data := take (get_size (variable v)) (rx_payload rx)\<rparr>)"
    using assms(3) by (simp add: set_value_def)
  have reg1: "registry (dictionary ?P1) ?k = Some ?v1"
    by (simp add: registry_update_same)
  then have arw: "after_remote_write ?k ?P1 = (?P1, [Notify (wait_value_updated ?k)])"
    by (simp add: after_remote_write_def subscript_registered)
  have "\<exists>evs. receive_messages C rem_node rx P = Inr (?P1, evs)
          \<and> notifies evs = [wait_value_updated ?k] \<and> sends evs = [] \<and> payloads evs = []"
    using assms(1,2) sv arw
    by (auto simp: receive_messages_def subscript_registered effects_simps Let_def)
  moreover have "map_option state (registry (dictionary ?P1) ?k) = Some (state v)"
    using reg1 by simp
  moreover have "\<exists>P2. before_local_read_resume ?k ?P1 = Inr P2
           \<and> map_option state (registry (dictionary P2) ?k) = Some REMOTE_OWNER_CACHED"
    using reg1 by (simp add: before_local_read_resume_def registry_update_same)
  ultimately show ?thesis
    by blast
qed

theorem set_new_value_handler_witness:
  "msg_type (rx_header (received MSG_SET_NEW_VALUE 7 4 [5, 0, 0, 0])) = MSG_SET_NEW_VALUE
   \<and> registry (dictionary (policy_with (var7 REMOTE_OWNER_NO_CACHED 0 0 [0, 0, 0, 0])))
        (msg_id (rx_header (received MSG_SET_NEW_VALUE 7 4 [5, 0, 0, 0])))
       = Some (var7 REMOTE_OWNER_NO_CACHED 0 0 [0, 0, 0, 0])
   \<and> get_size (variable (var7 REMOTE_OWNER_NO_CACHED 0 0 [0, 0, 0, 0]))
       \<le> length (rx_payload (received MSG_SET_NEW_VALUE 7 4 [5, 0, 0, 0]))
   \<and> fst (projr (receive_messages (node_of3 1) 0 (received MSG_SET_NEW_VALUE 7 4 [5, 0, 0, 0])
              (policy_with (var7 REMOTE_OWNER_NO_CACHED 0 0 [0, 0, 0, 0]))))
       = policy_with (var7 REMOTE_OWNER_NO_CACHED 0 0 [5, 0, 0, 0])
   \<and> notifies (snd (projr (receive_messages (node_of3 1) 0
              (received MSG_SET_NEW_VALUE 7 4 [5, 0, 0, 0])
              (policy_with (var7 REMOTE_OWNER_NO_CACHED 0 0 [0, 0, 0, 0])))))
       = [wait_value_updated 7]"
proof -
  let ?rx = "received MSG_SET_NEW_VALUE 7 4 [5, 0, 0, 0]"
  let ?v = "var7 REMOTE_OWNER_NO_CACHED 0 0 [0, 0, 0, 0]"
  have h1: "msg_type (rx_header ?rx) = MSG_SET_NEW_VALUE"
    by (simp add: received_def)
  have h2: "registry (dictionary (policy_with ?v)) (msg_id (rx_header ?rx)) = Some ?v"
    by (simp add: received_def policy_with_def registry_def)
  have h3: "get_size (variable ?v) \<le> length (rx_payload ?rx)"
    by (simp add: received_def var7_def get_size_def)
  from set_new_value_handler [OF h1 h2 h3, of "node_of3 1" 0]
  obtain evs where a: "receive_messages (node_of3 1) 0 ?rx (policy_with ?v) =
      Inr ((policy_with ?v)\<lparr>dictionary := AList.update (msg_id (rx_header ?rx))
               (Some (?v\<lparr>variable := (variable ?v)
                         \<lparr>data := take (get_size (variable ?v)) (rx_payload ?rx)\<rparr>\<rparr>))
               (dictionary (policy_with ?v))\<rparr>, evs)"
    "notifies evs = [wait_value_updated (msg_id (rx_header ?rx))]"
    by blast
  have c: "(policy_with ?v)\<lparr>dictionary := AList.update (msg_id (rx_header ?rx))
               (Some (?v\<lparr>variable := (variable ?v)
                         \<lparr>data := take (get_size (variable ?v)) (rx_payload ?rx)\<rparr>\<rparr>))
               (dictionary (policy_with ?v))\<rparr>
           = policy_with (var7 REMOTE_OWNER_NO_CACHED 0 0 [5, 0, 0, 0])"
    by (simp add: policy_with_def var7_def received_def get_size_def)
  from a c h1 h2 h3 show ?thesis
    by (simp add: received_def)
qed

text \<open>
  C6, as the specification states it: a message about an unknown variable would get no
  reply, whatever its type. Node 1 of three holds no variable 9 and receives
  \<open>MSG_INVALIDATE_COPY\<close> for it from node 0: it answers \<open>MSG_INVALIDATE_COPY_ACK\<close>.
\<close>

theorem invalidate_copy_unknown_variable_replies:
  "registry (dictionary (policy_with (var7 REMOTE_OWNER_CACHED 0 0 [0, 0, 0, 0]))) 9 = None
   \<and> sends (snd (projr (receive_messages (node_of3 1) 0 (received MSG_INVALIDATE_COPY 9 0 [])
              (policy_with (var7 REMOTE_OWNER_CACHED 0 0 [0, 0, 0, 0])))))
       = [(0, \<lparr>msg_type = MSG_INVALIDATE_COPY_ACK, msg_id = 9, msg_data = 1\<rparr>)]"
  by code_simp

text \<open>
  C6, amended. A message about a variable id that the registry does not hold changes
  no variable and no barrier entry, and signals nothing, whatever its type. For the six
  types other than \<open>MSG_INVALIDATE_COPY\<close> it is answered by nothing either. A
  \<open>MSG_INVALIDATE_COPY\<close> is acknowledged all the same: \<open>MSG_INVALIDATE_COPY_ACK\<close>
  goes to the peer named in the message.
\<close>

theorem unknown_variable_dropped:
  assumes "registry (dictionary P) (msg_id (rx_header rx)) = None"
  shows "(msg_type (rx_header rx) \<in> {MSG_REQUEST_OWNERSHIP, MSG_GRANT_OWNERSHIP,
             MSG_SET_NEW_OWNER, MSG_ASK_CURRENT_VALUE, MSG_SET_NEW_VALUE,
             MSG_INVALIDATE_COPY_ACK} \<longrightarrow>
           (\<exists>P1 evs. receive_messages C rem_node rx P = Inr (P1, evs)
              \<and> registry (dictionary P1) = registry (dictionary P)
              \<and> master_waiting_barrier_grants P1 = master_waiting_barrier_grants P
              \<and> sends evs = [] \<and> payloads evs = [] \<and> notifies evs = []))
       \<and> (msg_type (rx_header rx) = MSG_INVALIDATE_COPY
            \<and> msg_data (rx_header rx) \<noteq> word_of_int (pbsm_tid C)
            \<and> uint (msg_data (rx_header rx)) < MAX_NUMBER_OF_NODES \<longrightarrow>
           (\<exists>P1 evs. receive_messages C rem_node rx P = Inr (P1, evs)
              \<and> registry (dictionary P1) = registry (dictionary P)
              \<and> master_waiting_barrier_grants P1 = master_waiting_barrier_grants P
              \<and> sends evs = [(unat (msg_data (rx_header rx)),
                               \<lparr>msg_type = MSG_INVALIDATE_COPY_ACK,
                                msg_id = msg_id (rx_header rx),
                                msg_data = word_of_int (pbsm_tid C)\<rparr>)]
              \<and> payloads evs = [] \<and> notifies evs = []))"
proof (intro conjI impI)
  let ?k = "msg_id (rx_header rx)"
  obtain d where sub: "subscript (dictionary P) ?k = (None, d)" and d: "registry d = registry (dictionary P)"
    using assms subscript_fst [of "dictionary P" ?k] registry_subscript [of "dictionary P" ?k]
    by (cases "subscript (dictionary P) ?k") auto
  {
    assume "msg_type (rx_header rx) \<in> {MSG_REQUEST_OWNERSHIP, MSG_GRANT_OWNERSHIP,
             MSG_SET_NEW_OWNER, MSG_ASK_CURRENT_VALUE, MSG_SET_NEW_VALUE,
             MSG_INVALIDATE_COPY_ACK}"
    then consider "msg_type (rx_header rx) = MSG_REQUEST_OWNERSHIP"
      | "msg_type (rx_header rx) = MSG_GRANT_OWNERSHIP"
      | "msg_type (rx_header rx) = MSG_SET_NEW_OWNER"
      | "msg_type (rx_header rx) = MSG_ASK_CURRENT_VALUE"
      | "msg_type (rx_header rx) = MSG_SET_NEW_VALUE"
      | "msg_type (rx_header rx) = MSG_INVALIDATE_COPY_ACK"
      by auto
    then show "\<exists>P1 evs. receive_messages C rem_node rx P = Inr (P1, evs)
              \<and> registry (dictionary P1) = registry (dictionary P)
              \<and> master_waiting_barrier_grants P1 = master_waiting_barrier_grants P
              \<and> sends evs = [] \<and> payloads evs = [] \<and> notifies evs = []"
    proof cases
      case 1
      with sub d show ?thesis
        by (simp add: receive_messages_def Let_def effects_simps)
    next
      case 2
      with sub d show ?thesis
        by (simp add: receive_messages_def Let_def effects_simps)
    next
      case 3
      with sub d show ?thesis
        by (simp add: receive_messages_def Let_def effects_simps)
    next
      case 4
      with sub d show ?thesis
        by (simp add: receive_messages_def Let_def effects_simps)
    next
      case 5
      with sub d show ?thesis
        by (simp add: receive_messages_def Let_def effects_simps)
    next
      case 6
      with sub d show ?thesis
        by (simp add: receive_messages_def Let_def effects_simps)
    qed
  }
  {
    assume a: "msg_type (rx_header rx) = MSG_INVALIDATE_COPY
            \<and> msg_data (rx_header rx) \<noteq> word_of_int (pbsm_tid C)
            \<and> uint (msg_data (rx_header rx)) < MAX_NUMBER_OF_NODES"
    let ?ans = "\<lparr>msg_type = MSG_INVALIDATE_COPY_ACK, msg_id = ?k,
                 msg_data = word_of_int (pbsm_tid C)\<rparr>"
    from a send_to_peer [of "msg_data (rx_header rx)" C ?ans]
    obtain ok evs where s: "send_to C ?ans (msg_data (rx_header rx)) = Inr (ok, evs)"
      "sends evs = [(unat (msg_data (rx_header rx)), ?ans)]"
      "notifies evs = []" "payloads evs = []"
      by blast
    with a sub d show "\<exists>P1 evs. receive_messages C rem_node rx P = Inr (P1, evs)
              \<and> registry (dictionary P1) = registry (dictionary P)
              \<and> master_waiting_barrier_grants P1 = master_waiting_barrier_grants P
              \<and> sends evs = [(unat (msg_data (rx_header rx)), ?ans)]
              \<and> payloads evs = [] \<and> notifies evs = []"
      by (simp add: receive_messages_def Let_def effects_simps)
  }
qed

theorem unknown_variable_dropped_witness:
  "registry (dictionary (policy_with (var7 REMOTE_OWNER_CACHED 0 0 [0, 0, 0, 0])))
       (msg_id (rx_header (received MSG_REQUEST_OWNERSHIP 9 0 []))) = None
   \<and> registry (dictionary (policy_with (var7 REMOTE_OWNER_CACHED 0 0 [0, 0, 0, 0])))
       (msg_id (rx_header (received MSG_INVALIDATE_COPY 9 0 []))) = None
   \<and> msg_data (rx_header (received MSG_INVALIDATE_COPY 9 0 [])) \<noteq> word_of_int (pbsm_tid (node_of3 1))
   \<and> uint (msg_data (rx_header (received MSG_INVALIDATE_COPY 9 0 []))) < MAX_NUMBER_OF_NODES
   \<and> sends (snd (projr (receive_messages (node_of3 1) 0 (received MSG_REQUEST_OWNERSHIP 9 0 [])
              (policy_with (var7 REMOTE_OWNER_CACHED 0 0 [0, 0, 0, 0]))))) = []
   \<and> registry (dictionary (fst (projr (receive_messages (node_of3 1) 0
              (received MSG_INVALIDATE_COPY 9 0 [])
              (policy_with (var7 REMOTE_OWNER_CACHED 0 0 [0, 0, 0, 0]))))))
       = registry (dictionary (policy_with (var7 REMOTE_OWNER_CACHED 0 0 [0, 0, 0, 0])))
   \<and> length (sends (snd (projr (receive_messages (node_of3 1) 0
              (received MSG_INVALIDATE_COPY 9 0 [])
              (policy_with (var7 REMOTE_OWNER_CACHED 0 0 [0, 0, 0, 0])))))) = 1"
proof -
  let ?P = "policy_with (var7 REMOTE_OWNER_CACHED 0 0 [0, 0, 0, 0])"
  let ?rq = "received MSG_REQUEST_OWNERSHIP 9 0 []"
  let ?ri = "received MSG_INVALIDATE_COPY 9 0 []"
  have h1: "registry (dictionary ?P) (msg_id (rx_header ?rq)) = None"
    and h1': "registry (dictionary ?P) (msg_id (rx_header ?ri)) = None"
    by (simp_all add: policy_with_def registry_def received_def)
  have h2: "msg_type (rx_header ?rq) \<in> {MSG_REQUEST_OWNERSHIP, MSG_GRANT_OWNERSHIP,
             MSG_SET_NEW_OWNER, MSG_ASK_CURRENT_VALUE, MSG_SET_NEW_VALUE, MSG_INVALIDATE_COPY_ACK}"
    by (simp add: received_def)
  have h3: "msg_type (rx_header ?ri) = MSG_INVALIDATE_COPY
            \<and> msg_data (rx_header ?ri) \<noteq> word_of_int (pbsm_tid (node_of3 1))
            \<and> uint (msg_data (rx_header ?ri)) < MAX_NUMBER_OF_NODES"
    by (simp add: received_def node_of3_def MAX_NUMBER_OF_NODES_def)
  from unknown_variable_dropped [OF h1, of "node_of3 1" 0] h2
  obtain P1 evs where a: "receive_messages (node_of3 1) 0 ?rq ?P = Inr (P1, evs)" "sends evs = []"
    by blast
  from unknown_variable_dropped [OF h1', of "node_of3 1" 0] h3
  obtain P1' evs' where b: "receive_messages (node_of3 1) 0 ?ri ?P = Inr (P1', evs')"
    "registry (dictionary P1') = registry (dictionary ?P)"
    "sends evs' = [(unat (msg_data (rx_header ?ri)),
                    \<lparr>msg_type = MSG_INVALIDATE_COPY_ACK, msg_id = msg_id (rx_header ?ri),
                     msg_data = word_of_int (pbsm_tid (node_of3 1))\<rparr>)]"
    by blast
  from a b h1 h1' h3 show ?thesis
    by simp
qed

section \<open>Barriers\<close>

lemma positive_indices: "filter (\<lambda>i. 0 < i) [0 ..< n] = [Suc 0 ..< n]"
  by (induction n) auto

lemma master_barrier_release:
  assumes "pbsm_tid C = 0"
  shows "\<exists>evs. thread_wait_master_barrier_resume C junk s P =
            (P\<lparr>master_waiting_barrier_grants :=
                 AList.update s None (master_waiting_barrier_grants P)\<rparr>, evs)
          \<and> sends evs = map (\<lambda>i. (i, \<lparr>msg_type = MSG_BARRIER_UNBLOCK, msg_id = s,
                                         msg_data = junk\<rparr>)) [1 ..< nat (number_of_nodes C)]
          \<and> payloads evs = [] \<and> notifies evs = []"
proof -
  let ?ans = "\<lparr>msg_type = MSG_BARRIER_UNBLOCK, msg_id = s, msg_data = junk\<rparr>"
  obtain ok evs0 where sa: "send_to_all C ?ans = (ok, evs0)"
    by (cases "send_to_all C ?ans")
  with send_to_all_sends [of C ?ans] send_to_all_quiet [of C ?ans] assms
  have "sends evs0 = map (\<lambda>i. (i, ?ans)) [1 ..< nat (number_of_nodes C)]"
    "payloads evs0 = []" "notifies evs0 = []"
    by (simp_all add: positive_indices)
  with sa show ?thesis
    by (simp add: thread_wait_master_barrier_resume_def effects_simps)
qed

text \<open>
  C5. On the master, \<open>thread_wait_barrier\<close> is \<open>thread_wait_master_barrier\<close>, which
  looks the entry of barrier \<open>s\<close> up, or creates it with the number of nodes, and decrements it. While the counter is
  positive the thread parks on the entry's condition; when woken, or at once when the
  counter is zero, it resets the entry (a later look-up finds none and creates a new
  one) and sends \<open>MSG_BARRIER_UNBLOCK\<close> for \<open>s\<close> to every slave. The handler of
  \<open>MSG_BARRIER_BLOCK\<close> stores the same counter in the same entry; it sends nothing,
  signals the condition when the counter is zero, and returns: a turn of
  \<open>receive_messages\<close> has no wait.
\<close>

theorem master_barrier:
  assumes "pbsm_tid C = 0"
  shows "thread_wait_barrier C junk s P = Inr (thread_wait_master_barrier C junk s P)
       \<and> (0 < counter_after_arrival C (master_waiting_barrier_grants P) s \<longrightarrow>
           thread_wait_master_barrier C junk s P =
             (P\<lparr>master_waiting_barrier_grants :=
                  AList.update s (Some (counter_after_arrival C (master_waiting_barrier_grants P) s))
                    (master_waiting_barrier_grants P)\<rparr>,
              [], Blocks (wait_condition s) ()))
       \<and> (counter_after_arrival C (master_waiting_barrier_grants P) s = 0 \<longrightarrow>
           (\<exists>evs. thread_wait_master_barrier C junk s P =
                    (P\<lparr>master_waiting_barrier_grants :=
                         AList.update s None (master_waiting_barrier_grants P)\<rparr>,
                     evs, Returns ())
                \<and> sends evs = map (\<lambda>i. (i, \<lparr>msg_type = MSG_BARRIER_UNBLOCK, msg_id = s,
                                               msg_data = junk\<rparr>)) [1 ..< nat (number_of_nodes C)]))
       \<and> (\<exists>evs. thread_wait_master_barrier_resume C junk s P =
                    (P\<lparr>master_waiting_barrier_grants :=
                         AList.update s None (master_waiting_barrier_grants P)\<rparr>, evs)
                \<and> sends evs = map (\<lambda>i. (i, \<lparr>msg_type = MSG_BARRIER_UNBLOCK, msg_id = s,
                                               msg_data = junk\<rparr>)) [1 ..< nat (number_of_nodes C)])
       \<and> registry (AList.update s None (master_waiting_barrier_grants P)) s = None
       \<and> (msg_type (rx_header rx) = MSG_BARRIER_BLOCK \<and> msg_id (rx_header rx) = s \<longrightarrow>
           (\<exists>evs. receive_messages C rem_node rx P =
                    Inr (P\<lparr>master_waiting_barrier_grants :=
                           AList.update s
                             (Some (counter_after_arrival C (master_waiting_barrier_grants P) s))
                             (master_waiting_barrier_grants P)\<rparr>, evs)
                \<and> sends evs = [] \<and> payloads evs = []
                \<and> notifies evs =
                    (if counter_after_arrival C (master_waiting_barrier_grants P) s = 0
                     then [wait_condition s] else [])))"
proof -
  let ?g = "master_waiting_barrier_grants P"
  let ?c1 = "counter_after_arrival C ?g s"
  obtain elem g1 where sub: "subscript ?g s = (elem, g1)"
    by (cases "subscript ?g s")
  then have elem: "elem = registry ?g s" and g1: "AList.update s p g1 = AList.update s p ?g" for p
    using subscript_fst [of ?g s] update_subscript [of s p ?g] by simp_all
  have c1: "(case elem of None \<Rightarrow> word_of_int (get_number_of_nodes C) | Some c \<Rightarrow> c) - 1 = ?c1"
    by (cases "registry ?g s") (simp_all add: counter_after_arrival_def elem get_number_of_nodes_def)
  have enter: "thread_wait_master_barrier C junk s P =
      (if 0 < ?c1
       then (P\<lparr>master_waiting_barrier_grants := AList.update s (Some ?c1) ?g\<rparr>, [],
             Blocks (wait_condition s) ())
       else (let (P2, evs) = thread_wait_master_barrier_resume C junk s
                               (P\<lparr>master_waiting_barrier_grants := AList.update s (Some ?c1) ?g\<rparr>)
             in (P2, evs, Returns ())))"
    using sub c1 by (simp add: thread_wait_master_barrier_def Let_def g1)
  have a: "0 < ?c1 \<longrightarrow> thread_wait_master_barrier C junk s P =
             (P\<lparr>master_waiting_barrier_grants := AList.update s (Some ?c1) ?g\<rparr>,
              [], Blocks (wait_condition s) ())"
    using enter by simp
  have b: "?c1 = 0 \<longrightarrow>
           (\<exists>evs. thread_wait_master_barrier C junk s P =
                    (P\<lparr>master_waiting_barrier_grants := AList.update s None ?g\<rparr>, evs, Returns ())
                \<and> sends evs = map (\<lambda>i. (i, \<lparr>msg_type = MSG_BARRIER_UNBLOCK, msg_id = s,
                                               msg_data = junk\<rparr>)) [1 ..< nat (number_of_nodes C)])"
  proof
    assume z: "?c1 = 0"
    from master_barrier_release [OF assms, of junk s
        "P\<lparr>master_waiting_barrier_grants := AList.update s (Some ?c1) ?g\<rparr>"]
    obtain evs where "thread_wait_master_barrier_resume C junk s
                        (P\<lparr>master_waiting_barrier_grants := AList.update s (Some ?c1) ?g\<rparr>) =
            (P\<lparr>master_waiting_barrier_grants := AList.update s None ?g\<rparr>, evs)"
      "sends evs = map (\<lambda>i. (i, \<lparr>msg_type = MSG_BARRIER_UNBLOCK, msg_id = s,
                                         msg_data = junk\<rparr>)) [1 ..< nat (number_of_nodes C)]"
      by (auto simp: update_update_same)
    with enter z show "\<exists>evs. thread_wait_master_barrier C junk s P =
                    (P\<lparr>master_waiting_barrier_grants := AList.update s None ?g\<rparr>, evs, Returns ())
                \<and> sends evs = map (\<lambda>i. (i, \<lparr>msg_type = MSG_BARRIER_UNBLOCK, msg_id = s,
                                               msg_data = junk\<rparr>)) [1 ..< nat (number_of_nodes C)]"
      by simp
  qed
  have c: "\<exists>evs. thread_wait_master_barrier_resume C junk s P =
                    (P\<lparr>master_waiting_barrier_grants := AList.update s None ?g\<rparr>, evs)
                \<and> sends evs = map (\<lambda>i. (i, \<lparr>msg_type = MSG_BARRIER_UNBLOCK, msg_id = s,
                                               msg_data = junk\<rparr>)) [1 ..< nat (number_of_nodes C)]"
    using master_barrier_release [OF assms, of junk s P] by blast
  have d: "registry (AList.update s None ?g) s = None"
    by (rule registry_update_same)
  have e: "msg_type (rx_header rx) = MSG_BARRIER_BLOCK \<and> msg_id (rx_header rx) = s \<longrightarrow>
           (\<exists>evs. receive_messages C rem_node rx P =
                    Inr (P\<lparr>master_waiting_barrier_grants := AList.update s (Some ?c1) ?g\<rparr>, evs)
                \<and> sends evs = [] \<and> payloads evs = []
                \<and> notifies evs = (if ?c1 = 0 then [wait_condition s] else []))"
    using sub c1 by (auto simp: receive_messages_def Let_def g1 effects_simps)
  have f: "thread_wait_barrier C junk s P = Inr (thread_wait_master_barrier C junk s P)"
    using assms by (simp add: thread_wait_barrier_def)
  from a b c d e f show ?thesis
    by blast
qed

text \<open>
  Three nodes and barrier 11. The master arrives first and waits with the counter at
  two; had the two slaves arrived before it, it would find the counter at one, pass,
  and release them. The message of a slave alone never sends anything.
\<close>

theorem master_barrier_witness:
  "pbsm_tid (node_of3 0) = 0
   \<and> 0 < counter_after_arrival (node_of3 0)
           (master_waiting_barrier_grants \<lparr>dictionary = [], master_waiting_barrier_grants = []\<rparr>) 11
   \<and> counter_after_arrival (node_of3 0)
           (master_waiting_barrier_grants
              \<lparr>dictionary = [], master_waiting_barrier_grants = [(11, Some 1)]\<rparr>) 11 = 0
   \<and> msg_type (rx_header (received MSG_BARRIER_BLOCK 11 0 [])) = MSG_BARRIER_BLOCK
   \<and> msg_id (rx_header (received MSG_BARRIER_BLOCK 11 0 [])) = 11
   \<and> thread_wait_master_barrier (node_of3 0) 0 11
        \<lparr>dictionary = [], master_waiting_barrier_grants = []\<rparr>
       = (\<lparr>dictionary = [], master_waiting_barrier_grants = [(11, Some 2)]\<rparr>, [],
          Blocks (wait_condition 11) ())
   \<and> sends (fst (snd (thread_wait_master_barrier (node_of3 0) 0 11
        \<lparr>dictionary = [], master_waiting_barrier_grants = [(11, Some 1)]\<rparr>)))
       = [(1, \<lparr>msg_type = MSG_BARRIER_UNBLOCK, msg_id = 11, msg_data = 0\<rparr>),
          (2, \<lparr>msg_type = MSG_BARRIER_UNBLOCK, msg_id = 11, msg_data = 0\<rparr>)]
   \<and> sends (snd (projr (receive_messages (node_of3 0) 1 (received MSG_BARRIER_BLOCK 11 0 [])
        \<lparr>dictionary = [], master_waiting_barrier_grants = [(11, Some 1)]\<rparr>))) = []"
proof -
  let ?C = "node_of3 0"
  let ?P0 = "\<lparr>dictionary = [], master_waiting_barrier_grants = []\<rparr> :: Policy"
  let ?P1 = "\<lparr>dictionary = [], master_waiting_barrier_grants = [(11, Some 1)]\<rparr> :: Policy"
  let ?rx = "received MSG_BARRIER_BLOCK 11 0 []"
  have h0: "pbsm_tid ?C = 0"
    by (simp add: node_of3_def)
  have c0: "counter_after_arrival ?C (master_waiting_barrier_grants ?P0) 11 = 2"
    by (simp add: counter_after_arrival_def registry_def node_of3_def)
  have c1: "counter_after_arrival ?C (master_waiting_barrier_grants ?P1) 11 = 0"
    by (simp add: counter_after_arrival_def registry_def)
  have h1: "0 < counter_after_arrival ?C (master_waiting_barrier_grants ?P0) 11"
    using c0 by simp
  have h3: "msg_type (rx_header ?rx) = MSG_BARRIER_BLOCK \<and> msg_id (rx_header ?rx) = 11"
    by (simp add: received_def)
  from master_barrier [OF h0, where P = ?P0 and s = 11 and junk = 0 and rx = ?rx and rem_node = 1] h1
  have a: "thread_wait_master_barrier ?C 0 11 ?P0 =
             (?P0\<lparr>master_waiting_barrier_grants :=
                  AList.update 11 (Some (counter_after_arrival ?C (master_waiting_barrier_grants ?P0) 11))
                    (master_waiting_barrier_grants ?P0)\<rparr>,
              [], Blocks (wait_condition 11) ())"
    by blast
  from master_barrier [OF h0, where P = ?P1 and s = 11 and junk = 0 and rx = ?rx and rem_node = 1] c1 h3
  obtain evs evs' where b:
    "thread_wait_master_barrier ?C 0 11 ?P1 =
       (?P1\<lparr>master_waiting_barrier_grants :=
            AList.update 11 None (master_waiting_barrier_grants ?P1)\<rparr>, evs, Returns ())"
    "sends evs = map (\<lambda>i. (i, \<lparr>msg_type = MSG_BARRIER_UNBLOCK, msg_id = 11, msg_data = 0\<rparr>))
                   [1 ..< nat (number_of_nodes ?C)]"
    "receive_messages ?C 1 ?rx ?P1 =
       Inr (?P1\<lparr>master_waiting_barrier_grants :=
              AList.update 11 (Some (counter_after_arrival ?C (master_waiting_barrier_grants ?P1) 11))
                (master_waiting_barrier_grants ?P1)\<rparr>, evs')"
    "sends evs' = []"
    by blast
  have n: "[1 ..< nat (number_of_nodes ?C)] = [1, 2]"
    by (simp add: node_of3_def upt_conv_Cons)
  from a b c0 c1 h0 h1 h3 n show ?thesis
    by simp
qed

section \<open>The configuration file and the connections\<close>

lemma isspace_newline: "isspace (CHR 0x0A)"
  by (simp add: isspace_def)

lemma read_address_line:
  assumes "list_all isspace w" and "address_line l"
  shows "extracted (w @ l @ CHR 0x0A # r) = l" and "remaining (w @ l @ CHR 0x0A # r) = CHR 0x0A # r"
proof -
  from assms(2) obtain c cs where l: "l = c # cs" and c: "\<not> isspace c"
    by (cases l) (auto simp: address_line_def)
  from assms(1) have "dropWhile isspace (w @ l @ CHR 0x0A # r) = dropWhile isspace (l @ CHR 0x0A # r)"
    by (simp add: dropWhile_append2 list_all_iff)
  also have "\<dots> = l @ CHR 0x0A # r"
    using l c by simp
  finally have d: "dropWhile isspace (w @ l @ CHR 0x0A # r) = l @ CHR 0x0A # r" .
  have all: "\<And>x. x \<in> set l \<Longrightarrow> \<not> isspace x"
    using assms(2) by (simp add: address_line_def list_all_iff)
  show "extracted (w @ l @ CHR 0x0A # r) = l"
    using all by (simp add: extracted_def d takeWhile_append2 isspace_newline)
  show "remaining (w @ l @ CHR 0x0A # r) = CHR 0x0A # r"
    using all by (simp add: remaining_def d dropWhile_append2 isspace_newline)
qed

lemma loop_reads_lines:
  assumes "list_all address_line ls" and "list_all isspace w"
    and "n < 100" and "100 \<le> n + int (length ls)"
  shows "\<exists>conns1. CommunicationHandler_loop tid i (w @ file_of_lines ls @ rest) conns n =
            (conns1, 100, [Log WARNING ''Maximum number of nodes in config file reached''])
          \<and> map ip conns1 = map ip conns @ take (nat (100 - n)) ls"
  using assms
proof (induction ls arbitrary: i w conns n)
  case Nil
  then show ?case by simp
next
  case (Cons l ls)
  let ?r = "file_of_lines ls @ rest"
  let ?s = "w @ file_of_lines (l # ls) @ rest"
  let ?e = "\<lparr>ip = l, recv_port = network_port_offset + i, send_port = network_port_offset + tid\<rparr>"
  have s: "?s = w @ l @ CHR 0x0A # ?r"
    by (simp add: file_of_lines_def)
  from Cons.prems(1) have l: "address_line l" and ls: "list_all address_line ls"
    by simp_all
  have ex: "extracted ?s = l" and re: "remaining ?s = CHR 0x0A # ?r"
    unfolding s using read_address_line [OF Cons.prems(2) l] by simp_all
  show ?case
  proof (cases "n + 1 = 100")
    case True
    then have "nat (100 - n) = 1" by simp
    with True ex re show ?thesis
      by (subst CommunicationHandler_loop.simps) (simp add: MAX_NUMBER_OF_NODES_def)
  next
    case False
    with Cons.prems(3) have n1: "n + 1 < 100" by simp
    have w1: "list_all isspace [CHR 0x0A]"
      by (simp add: isspace_newline)
    have len: "100 \<le> n + 1 + int (length ls)"
      using Cons.prems(4) by simp
    from Cons.IH [OF ls w1 n1 len, of "i + 1" "conns @ [?e]"]
    obtain conns1 where r: "CommunicationHandler_loop tid (i + 1) ([CHR 0x0A] @ ?r) (conns @ [?e]) (n + 1)
          = (conns1, 100, [Log WARNING ''Maximum number of nodes in config file reached''])"
      "map ip conns1 = map ip (conns @ [?e]) @ take (nat (100 - (n + 1))) ls"
      by blast
    have "nat (100 - n) = Suc (nat (100 - (n + 1)))"
      using n1 by simp
    then have t: "take (nat (100 - n)) (l # ls) = l # take (nat (100 - (n + 1))) ls"
      by simp
    have "CommunicationHandler_loop tid i ?s conns n =
            CommunicationHandler_loop tid (i + 1) ([CHR 0x0A] @ ?r) (conns @ [?e]) (n + 1)"
      using False ex re
      by (subst CommunicationHandler_loop.simps) (simp add: MAX_NUMBER_OF_NODES_def)
    with r t show ?thesis by simp
  qed
qed

lemma loop_invariant:
  assumes "i = int (length conns)" and "n = int (length conns)" and "n < 100"
    and "\<forall>k < length conns. recv_port (conns ! k) = network_port_offset + int k
            \<and> send_port (conns ! k) = network_port_offset + tid"
  shows "\<exists>conns1 n1 evs. CommunicationHandler_loop tid i s conns n = (conns1, n1, evs)
          \<and> n1 = int (length conns1) \<and> n1 \<le> 100
          \<and> (\<forall>k < length conns1. recv_port (conns1 ! k) = network_port_offset + int k
                \<and> send_port (conns1 ! k) = network_port_offset + tid)"
  using assms
proof (induction tid i s conns n rule: CommunicationHandler_loop.induct)
  case (1 tid i s conns n)
  let ?e = "\<lparr>ip = extracted s, recv_port = network_port_offset + i,
              send_port = network_port_offset + tid\<rparr>"
  have ext: "\<forall>k < length (conns @ [?e]).
               recv_port ((conns @ [?e]) ! k) = network_port_offset + int k
             \<and> send_port ((conns @ [?e]) ! k) = network_port_offset + tid"
    using "1.prems"(1,4) by (auto simp: nth_append less_Suc_eq)
  show ?case
  proof (cases "remaining s = []")
    case True
    with "1.prems" show ?thesis
      by (subst CommunicationHandler_loop.simps) simp
  next
    case False
    show ?thesis
    proof (cases "n + 1 = MAX_NUMBER_OF_NODES")
      case True
      with False ext "1.prems"(2) show ?thesis
        by (subst CommunicationHandler_loop.simps) (simp add: MAX_NUMBER_OF_NODES_def)
    next
      case max: False
      have "i + 1 = int (length (conns @ [?e]))" "n + 1 = int (length (conns @ [?e]))"
        "n + 1 < 100"
        using "1.prems"(1,2,3) max by (simp_all add: MAX_NUMBER_OF_NODES_def)
      from "1.IH" [OF False max this ext] False max show ?thesis
        by (subst CommunicationHandler_loop.simps) simp
    qed
  qed
qed

text \<open>
  C10. The constructor never counts more than \<open>MAX_NUMBER_OF_NODES = 100\<close> nodes. For a
  file of more than 100 lines with one address each, the nodes are the first 100
  lines, in order, and the warning is logged; the lines after them are not read.
\<close>

theorem at_most_100_nodes:
  "MAX_NUMBER_OF_NODES = 100
   \<and> (CommunicationHandler_ctor tid net (Some s) = Inr (C, evs)
        \<longrightarrow> get_number_of_nodes C \<le> 100 \<and> int (length (connections C)) = get_number_of_nodes C)
   \<and> (list_all address_line ls \<and> 100 < length ls \<longrightarrow>
        (\<exists>C1. CommunicationHandler_ctor tid net (Some (file_of_lines ls @ rest))
                 = Inr (C1, [Log WARNING ''Maximum number of nodes in config file reached''])
             \<and> get_number_of_nodes C1 = 100
             \<and> map ip (connections C1) = take 100 ls))"
proof -
  have m: "MAX_NUMBER_OF_NODES = 100"
    by (simp add: MAX_NUMBER_OF_NODES_def)
  have a: "get_number_of_nodes C \<le> 100 \<and> int (length (connections C)) = get_number_of_nodes C"
    if "CommunicationHandler_ctor tid net (Some s) = Inr (C, evs)"
  proof -
    from loop_invariant [of 0 "[]" 0 tid s]
    obtain conns1 n1 evs1 where "CommunicationHandler_loop tid 0 s [] 0 = (conns1, n1, evs1)"
      "n1 = int (length conns1)" "n1 \<le> 100"
      by auto
    with that show ?thesis
      by (auto simp: CommunicationHandler_ctor_def get_number_of_nodes_def)
  qed
  have b: "\<exists>C1. CommunicationHandler_ctor tid net (Some (file_of_lines ls @ rest))
                 = Inr (C1, [Log WARNING ''Maximum number of nodes in config file reached''])
             \<and> get_number_of_nodes C1 = 100
             \<and> map ip (connections C1) = take 100 ls"
    if "list_all address_line ls \<and> 100 < length ls"
  proof -
    from that have "100 \<le> 0 + int (length ls)" by simp
    from loop_reads_lines [of ls "[]" 0 tid 0 rest "[]"] that this
    obtain conns1 where "CommunicationHandler_loop tid 0 (file_of_lines ls @ rest) [] 0 =
              (conns1, 100, [Log WARNING ''Maximum number of nodes in config file reached''])"
      "map ip conns1 = take 100 ls"
      by auto
    then show ?thesis
      by (simp add: CommunicationHandler_ctor_def get_number_of_nodes_def)
  qed
  from m a b show ?thesis
    by blast
qed

lemma loop_hosts3_master:
  "CommunicationHandler_loop 0 0 hosts3 [] 0 = (connections (node_of3 0), 3, [])"
  by code_simp

lemma ctor_hosts3_master:
  "CommunicationHandler_ctor 0 all_sent (Some hosts3) = Inr (node_of3 0, [])"
  by (simp add: CommunicationHandler_ctor_def loop_hosts3_master) (simp add: node_of3_def)

text \<open>
  The three hosts give three nodes; a file of 101 lines gives the first hundred.
\<close>

theorem at_most_100_nodes_witness:
  "CommunicationHandler_ctor 0 all_sent (Some hosts3) = Inr (node_of3 0, [])
   \<and> list_all address_line (replicate 101 ''10.0.0.1'')
   \<and> 100 < length (replicate 101 ''10.0.0.1'')
   \<and> get_number_of_nodes (node_of3 0) \<le> 100
   \<and> get_number_of_nodes (fst (projr (CommunicationHandler_ctor 0 all_sent
         (Some (file_of_lines (replicate 101 ''10.0.0.1'') @ []))))) = 100
   \<and> map ip (connections (fst (projr (CommunicationHandler_ctor 0 all_sent
         (Some (file_of_lines (replicate 101 ''10.0.0.1'') @ []))))))
       = replicate 100 ''10.0.0.1''
   \<and> snd (projr (CommunicationHandler_ctor 0 all_sent
         (Some (file_of_lines (replicate 101 ''10.0.0.1'') @ []))))
       = [Log WARNING ''Maximum number of nodes in config file reached'']"
proof -
  let ?ls = "replicate 101 ''10.0.0.1''"
  have h1: "CommunicationHandler_ctor 0 all_sent (Some hosts3) = Inr (node_of3 0, [])"
    by (rule ctor_hosts3_master)
  have h2: "list_all address_line ?ls \<and> 100 < length ?ls"
    by (simp add: list_all_iff address_line_def isspace_def)
  from at_most_100_nodes [of 0 all_sent hosts3 "node_of3 0" "[]" ?ls "[]"] h1
  have a: "get_number_of_nodes (node_of3 0) \<le> 100"
    by blast
  from at_most_100_nodes [of 0 all_sent hosts3 "node_of3 0" "[]" ?ls "[]"] h2
  obtain C1 where b: "CommunicationHandler_ctor 0 all_sent (Some (file_of_lines ?ls @ []))
                 = Inr (C1, [Log WARNING ''Maximum number of nodes in config file reached''])"
    "get_number_of_nodes C1 = 100" "map ip (connections C1) = take 100 ?ls"
    by blast
  have "take 100 ?ls = replicate 100 ''10.0.0.1''"
    by simp
  with a b h1 h2 show ?thesis
    by simp
qed

text \<open>
  C8, as the specification states it: node \<open>i\<close> would listen on port \<open>P + i\<close> for
  every peer, and connect to peer \<open>j\<close> at port \<open>P + j\<close>. On node 0 of the three hosts,
  the socket that receives from node 1 is bound to port 2001, not 2000, and the socket
  that sends to node 1 is connected to port 2000, not 2001.
\<close>

theorem ports_follow_the_sender:
  "CommunicationHandler_ctor 0 all_sent (Some hosts3) = Inr (node_of3 0, [])
   \<and> start_recv_server willing_os (node_of3 0) 1
       = Inr (Bind 1 \<lparr>sin_port = 2001, sin_addr = INADDR_ANY\<rparr>)
   \<and> (2001 :: 16 word) \<noteq> htons (network_port_offset + 0)
   \<and> start_send_client willing_os (node_of3 0) 1
       = Inr (Connect 1 \<lparr>sin_port = 2000, sin_addr = 0\<rparr>)
   \<and> (2000 :: 16 word) \<noteq> htons (network_port_offset + 1)"
proof -
  have "start_recv_server willing_os (node_of3 0) 1
          = Inr (Bind 1 \<lparr>sin_port = 2001, sin_addr = INADDR_ANY\<rparr>)"
    by code_simp
  moreover have "start_send_client willing_os (node_of3 0) 1
          = Inr (Connect 1 \<lparr>sin_port = 2000, sin_addr = 0\<rparr>)"
    by code_simp
  moreover have "(2001 :: 16 word) \<noteq> htons (network_port_offset + 0)"
    "(2000 :: 16 word) \<noteq> htons (network_port_offset + 1)"
    by (simp_all add: htons_def network_port_offset_def)
  ultimately show ?thesis
    using ctor_hosts3_master by simp
qed

text \<open>
  C8, amended. The base port is 2000. On node \<open>i\<close>, the entry of every node \<open>j\<close> of the
  configuration file has \<open>recv_port = 2000 + j\<close> and \<open>send_port = 2000 + i\<close>: the
  socket on which \<open>i\<close> receives from \<open>j\<close> is bound to port \<open>2000 + j\<close>, and the socket
  on which \<open>i\<close> sends to \<open>j\<close> is connected to port \<open>2000 + i\<close>, the port on which \<open>j\<close>
  receives from \<open>i\<close>.
\<close>

theorem connection_ports:
  assumes "CommunicationHandler_ctor i net (Some conf) = Inr (C, evs)"
    and "j < length (connections C)"
  shows "network_port_offset = 2000
     \<and> int (length (connections C)) = number_of_nodes C
     \<and> recv_port (connections C ! j) = 2000 + int j
     \<and> send_port (connections C ! j) = 2000 + i
     \<and> (start_recv_server sys C j = Inr op1 \<longrightarrow>
          op1 = Bind j \<lparr>sin_port = htons (2000 + int j), sin_addr = INADDR_ANY\<rparr>)
     \<and> (start_send_client sys C j = Inr op2 \<longrightarrow>
          (\<exists>a. op2 = Connect j \<lparr>sin_port = htons (2000 + i), sin_addr = a\<rparr>))"
proof -
  from loop_invariant [of 0 "[]" 0 i conf]
  obtain conns1 n1 evs1 where l: "CommunicationHandler_loop i 0 conf [] 0 = (conns1, n1, evs1)"
    "n1 = int (length conns1)"
    "\<forall>k < length conns1. recv_port (conns1 ! k) = network_port_offset + int k
        \<and> send_port (conns1 ! k) = network_port_offset + i"
    by auto
  with assms(1) have C: "connections C = conns1" "number_of_nodes C = n1"
    by (auto simp: CommunicationHandler_ctor_def)
  with l assms(2) have p: "recv_port (connections C ! j) = 2000 + int j"
    "send_port (connections C ! j) = 2000 + i"
    by (simp_all add: network_port_offset_def)
  have r: "start_recv_server sys C j = Inr op1 \<longrightarrow>
          op1 = Bind j \<lparr>sin_port = htons (2000 + int j), sin_addr = INADDR_ANY\<rparr>"
    using p assms(2) by (auto simp: start_recv_server_def Let_def split: if_splits)
  have s: "start_send_client sys C j = Inr op2 \<longrightarrow>
          (\<exists>a. op2 = Connect j \<lparr>sin_port = htons (2000 + i), sin_addr = a\<rparr>)"
    using p assms(2) by (auto simp: start_send_client_def Let_def split: if_splits)
  from C l(2) p r s show ?thesis
    by (simp add: network_port_offset_def)
qed

theorem connection_ports_witness:
  "CommunicationHandler_ctor 0 all_sent (Some hosts3) = Inr (node_of3 0, [])
   \<and> 1 < length (connections (node_of3 0))
   \<and> start_recv_server willing_os (node_of3 0) 1
       = Inr (Bind 1 \<lparr>sin_port = 2001, sin_addr = 0\<rparr>)
   \<and> start_send_client willing_os (node_of3 0) 1
       = Inr (Connect 1 \<lparr>sin_port = 2000, sin_addr = 0\<rparr>)
   \<and> recv_port (connections (node_of3 0) ! 1) = 2001
   \<and> send_port (connections (node_of3 0) ! 1) = 2000
   \<and> sin_port \<lparr>sin_port = 2001, sin_addr = 0\<rparr> = htons (2000 + int 1)
   \<and> sin_port \<lparr>sin_port = 2000, sin_addr = 0\<rparr> = htons (2000 + 0)"
proof -
  have h1: "CommunicationHandler_ctor 0 all_sent (Some hosts3) = Inr (node_of3 0, [])"
    by (rule ctor_hosts3_master)
  have h2: "1 < length (connections (node_of3 0))"
    by (simp add: node_of3_def)
  have h3: "start_recv_server willing_os (node_of3 0) 1
          = Inr (Bind 1 \<lparr>sin_port = 2001, sin_addr = 0\<rparr>)"
    by code_simp
  have h4: "start_send_client willing_os (node_of3 0) 1
          = Inr (Connect 1 \<lparr>sin_port = 2000, sin_addr = 0\<rparr>)"
    by code_simp
  from connection_ports [OF h1 h2, of willing_os "Bind 1 \<lparr>sin_port = 2001, sin_addr = 0\<rparr>"
      "Connect 1 \<lparr>sin_port = 2000, sin_addr = 0\<rparr>"] h3 h4
  have "recv_port (connections (node_of3 0) ! 1) = 2000 + int 1"
    "send_port (connections (node_of3 0) ! 1) = 2000 + 0"
    "Bind 1 \<lparr>sin_port = 2001, sin_addr = 0\<rparr>
       = Bind 1 \<lparr>sin_port = htons (2000 + int 1), sin_addr = INADDR_ANY\<rparr>"
    "\<exists>a. Connect 1 \<lparr>sin_port = 2000, sin_addr = 0\<rparr>
       = Connect 1 \<lparr>sin_port = htons (2000 + 0), sin_addr = a\<rparr>"
    by blast+
  with h1 h2 h3 h4 show ?thesis
    by auto
qed

section \<open>Start-up\<close>

lemma for_each_var_total:
  "list_all (\<lambda>(k, p). p \<noteq> None) d \<Longrightarrow> \<exists>d1. for_each_var f d = Inr d1"
  by (induction f d rule: for_each_var.induct) auto

lemma node_init_total:
  assumes "list_all (\<lambda>(k, p). p \<noteq> None) (dictionary P)"
  shows "\<exists>P1. (if tid = (0 :: int) then master_node_init P else slave_node_init P) = Inr P1"
proof -
  from for_each_var_total [OF assms]
  obtain d1 d2 where "for_each_var (\<lambda>v. v\<lparr>state := OWNER_SHARED\<rparr>) (dictionary P) = Inr d1"
    "for_each_var (\<lambda>v. v\<lparr>state := REMOTE_OWNER_CACHED, remote_owner := 0\<rparr>) (dictionary P) = Inr d2"
    by blast
  then show ?thesis
    by (simp add: master_node_init_def slave_node_init_def)
qed

lemma willing_recv_total:
  "\<forall>j \<in> set js. j < length (connections C)
     \<Longrightarrow> \<exists>ops. for_each_entry (start_recv_server willing_os C) tid js = Inr ops"
  by (induction js) (auto simp: start_recv_server_def willing_os_def Let_def)

lemma willing_send_total:
  "\<forall>j \<in> set js. j < length (connections C)
     \<Longrightarrow> \<exists>ops. for_each_entry (start_send_client willing_os C) tid js = Inr ops"
  by (induction js) (auto simp: start_send_client_def willing_os_def Let_def)

lemma willing_connections_total:
  assumes "int (length (connections C)) = number_of_nodes C"
  shows "\<exists>ops. create_connections willing_os C = Inr ops"
proof -
  have "\<forall>j \<in> set [0 ..< nat (number_of_nodes C)]. j < length (connections C)"
    using assms by auto
  then obtain a b where
    "for_each_entry (start_recv_server willing_os C) (pbsm_tid C) [0 ..< nat (number_of_nodes C)] = Inr a"
    "for_each_entry (start_send_client willing_os C) (pbsm_tid C) [0 ..< nat (number_of_nodes C)] = Inr b"
    using willing_recv_total willing_send_total by metis
  then show ?thesis
    by (simp add: create_connections_def)
qed

text \<open>
  C9, as the specification states it: an argument that is not a node id would stop the
  start-up. With the three hosts, \<^verbatim>\<open>program 7\<close> starts as node 7, a slave with a
  receiving thread for each of the nodes 0, 1 and 2; \<^verbatim>\<open>program abc\<close> starts as
  node 0, the master.
\<close>

theorem pbsm_init_accepts_any_argument:
  "pbsm_init willing_os all_sent (Some hosts3) [''program'', ''7'']
      \<lparr>dictionary = [], master_waiting_barrier_grants = []\<rparr>
     = Started \<lparr>dictionary = [], master_waiting_barrier_grants = []\<rparr> (node_of3 7)
         [Bind 0 \<lparr>sin_port = 2000, sin_addr = 0\<rparr>, Bind 1 \<lparr>sin_port = 2001, sin_addr = 0\<rparr>,
          Bind 2 \<lparr>sin_port = 2002, sin_addr = 0\<rparr>, Connect 0 \<lparr>sin_port = 2007, sin_addr = 0\<rparr>,
          Connect 1 \<lparr>sin_port = 2007, sin_addr = 0\<rparr>, Connect 2 \<lparr>sin_port = 2007, sin_addr = 0\<rparr>]
         [0, 1, 2]
   \<and> pbsm_init willing_os all_sent (Some hosts3) [''program'', ''abc'']
      \<lparr>dictionary = [], master_waiting_barrier_grants = []\<rparr>
     = Started \<lparr>dictionary = [], master_waiting_barrier_grants = []\<rparr> (node_of3 0)
         [Bind 1 \<lparr>sin_port = 2001, sin_addr = 0\<rparr>, Bind 2 \<lparr>sin_port = 2002, sin_addr = 0\<rparr>,
          Connect 1 \<lparr>sin_port = 2000, sin_addr = 0\<rparr>, Connect 2 \<lparr>sin_port = 2000, sin_addr = 0\<rparr>]
         [1, 2]"
proof -
  let ?P = "\<lparr>dictionary = [], master_waiting_barrier_grants = []\<rparr> :: Policy"
  have a7: "atoi ''7'' = Some 7" and a0: "atoi ''abc'' = Some 0"
    by code_simp+
  have i7: "slave_node_init ?P = Inr ?P" and i0: "master_node_init ?P = Inr ?P"
    by (simp_all add: slave_node_init_def master_node_init_def)
  have "CommunicationHandler_loop 7 0 hosts3 [] 0 = (connections (node_of3 7), 3, [])"
    by code_simp
  then have c7: "CommunicationHandler_ctor 7 all_sent (Some hosts3) = Inr (node_of3 7, [])"
    by (simp add: CommunicationHandler_ctor_def) (simp add: node_of3_def)
  have s7: "create_connections willing_os (node_of3 7) =
      Inr [Bind 0 \<lparr>sin_port = 2000, sin_addr = 0\<rparr>, Bind 1 \<lparr>sin_port = 2001, sin_addr = 0\<rparr>,
           Bind 2 \<lparr>sin_port = 2002, sin_addr = 0\<rparr>, Connect 0 \<lparr>sin_port = 2007, sin_addr = 0\<rparr>,
           Connect 1 \<lparr>sin_port = 2007, sin_addr = 0\<rparr>, Connect 2 \<lparr>sin_port = 2007, sin_addr = 0\<rparr>]"
    by code_simp
  have s0: "create_connections willing_os (node_of3 0) =
      Inr [Bind 1 \<lparr>sin_port = 2001, sin_addr = 0\<rparr>, Bind 2 \<lparr>sin_port = 2002, sin_addr = 0\<rparr>,
           Connect 1 \<lparr>sin_port = 2000, sin_addr = 0\<rparr>, Connect 2 \<lparr>sin_port = 2000, sin_addr = 0\<rparr>]"
    by code_simp
  have t7: "start_receiving (node_of3 7) = [0, 1, 2]" and t0: "start_receiving (node_of3 0) = [1, 2]"
    by code_simp+
  show ?thesis
    by (simp add: pbsm_init_def a7 a0 i7 i0 c7 ctor_hosts3_master s7 s0 t7 t0)
qed

text \<open>
  C9, amended. \<open>pbsm_init\<close> calls \<^verbatim>\<open>exit(-1)\<close>, status 255, exactly when the number
  of arguments is not one. With one argument it never exits, whatever the argument
  is: \<open>pbsm_tid\<close> becomes its \<^verbatim>\<open>atoi\<close> value and, where the configuration file can be
  read and the sockets can be opened, the node starts with that id.
\<close>

theorem pbsm_init_arguments:
  "(length argv \<noteq> 2 \<longrightarrow>
      pbsm_init sys net conf argv P = Exit (- 1) \<and> exit_status (- 1) = 255)
   \<and> (length argv = 2 \<longrightarrow> pbsm_init sys net conf argv P \<noteq> Exit c)
   \<and> (length argv = 2 \<and> atoi (argv ! 1) = Some tid
        \<and> list_all (\<lambda>(k, p). p \<noteq> None) (dictionary P) \<longrightarrow>
      (\<exists>P1 C ops. pbsm_init willing_os net (Some s) argv P = Started P1 C ops (start_receiving C)
          \<and> pbsm_tid C = tid))"
proof -
  have a: "length argv \<noteq> 2 \<longrightarrow>
      pbsm_init sys net conf argv P = Exit (- 1) \<and> exit_status (- 1) = 255"
    by (simp add: pbsm_init_def exit_status_def)
  have b: "length argv = 2 \<longrightarrow> pbsm_init sys net conf argv P \<noteq> Exit c"
    by (auto simp: pbsm_init_def split: option.splits sum.splits failure.splits)
  have c: "\<exists>P1 C ops. pbsm_init willing_os net (Some s) argv P = Started P1 C ops (start_receiving C)
          \<and> pbsm_tid C = tid"
    if h: "length argv = 2 \<and> atoi (argv ! 1) = Some tid
        \<and> list_all (\<lambda>(k, p). p \<noteq> None) (dictionary P)"
  proof -
    from h node_init_total [of P tid]
    obtain P1 where p: "(if tid = 0 then master_node_init P else slave_node_init P) = Inr P1"
      by blast
    from loop_invariant [of 0 "[]" 0 tid s]
    obtain conns n evs where l: "CommunicationHandler_loop tid 0 s [] 0 = (conns, n, evs)"
      and n: "n = int (length conns)"
      by auto
    let ?C = "\<lparr>pbsm_tid = tid, connections = conns, number_of_nodes = n, send_ok = net\<rparr>"
    from l have ct: "CommunicationHandler_ctor tid net (Some s) = Inr (?C, evs)"
      by (simp add: CommunicationHandler_ctor_def)
    obtain ops where o: "create_connections willing_os ?C = Inr ops"
      using willing_connections_total [of ?C] n by auto
    from h p ct o have "pbsm_init willing_os net (Some s) argv P = Started P1 ?C ops (start_receiving ?C)"
      by (simp add: pbsm_init_def)
    then show ?thesis
      by (intro exI [of _ P1] exI [of _ ?C] exI [of _ ops]) simp
  qed
  from a b c show ?thesis
    by blast
qed

theorem pbsm_init_arguments_witness:
  "length [''program''] \<noteq> 2
   \<and> length [''program'', ''7''] = 2
   \<and> atoi ([''program'', ''7''] ! 1) = Some 7
   \<and> list_all (\<lambda>(k, p). p \<noteq> None)
        (dictionary (policy_with (var7 OWNER_SHARED 0 0 [0, 0, 0, 0])))
   \<and> pbsm_init willing_os all_sent (Some hosts3) [''program'']
        (policy_with (var7 OWNER_SHARED 0 0 [0, 0, 0, 0])) = Exit (- 1)
   \<and> pbsm_init willing_os all_sent (Some hosts3) [''program'', ''7'']
        (policy_with (var7 OWNER_SHARED 0 0 [0, 0, 0, 0])) \<noteq> Exit (- 1)"
proof -
  let ?P = "policy_with (var7 OWNER_SHARED 0 0 [0, 0, 0, 0])"
  have h1: "length [''program''] \<noteq> 2" and h2: "length [''program'', ''7''] = 2"
    by simp_all
  have h3: "atoi ([''program'', ''7''] ! 1) = Some 7"
    by code_simp
  have h4: "list_all (\<lambda>(k, p). p \<noteq> None) (dictionary ?P)"
    by (simp add: policy_with_def)
  from pbsm_init_arguments [of "[''program'']" willing_os all_sent "Some hosts3" ?P] h1
  have a: "pbsm_init willing_os all_sent (Some hosts3) [''program''] ?P = Exit (- 1)"
    by blast
  from pbsm_init_arguments [of "[''program'', ''7'']" willing_os all_sent "Some hosts3" ?P "- 1"] h2
  have b: "pbsm_init willing_os all_sent (Some hosts3) [''program'', ''7''] ?P \<noteq> Exit (- 1)"
    by blast
  from h1 h2 h3 h4 a b show ?thesis
    by blast
qed

end
